theory Spec2Isabelle
  imports Complex_Main "HOL-Library.Word" "HOL-Library.Sublist"
begin

unbundle bit_operations_syntax

section \<open>Go strings\<close>

text \<open>
  A Go string is a sequence of bytes, here a \<^typ>\<open>string\<close> (a list of 8-bit characters).
  A rune is a Unicode code point (Go's \<open>int32\<close>); the only runes the program handles are
  the ones a \<open>range\<close> loop decodes, all in \<open>0 .. 0x10FFFF\<close>, so \<^typ>\<open>int\<close> holds them.
\<close>

type_synonym rune = int

definition RuneError :: rune where
  "RuneError = 0xFFFD"

definition byte :: "char \<Rightarrow> nat" where
  "byte c = of_char c"

text \<open>
  \<open>utf8.DecodeRuneInString\<close>: the first rune of a string and its width in bytes. An empty
  string gives \<open>(RuneError, 0)\<close>, an invalid or truncated encoding \<open>(RuneError, 1)\<close>. The
  accepted second bytes follow the standard library's table: \<open>A0..BF\<close> after \<open>E0\<close>,
  \<open>80..9F\<close> after \<open>ED\<close>, \<open>90..BF\<close> after \<open>F0\<close>, \<open>80..8F\<close> after \<open>F4\<close>, \<open>80..BF\<close>
  otherwise.
\<close>

definition cont :: "nat \<Rightarrow> bool" where
  "cont b = (0x80 \<le> b \<and> b \<le> 0xBF)"

definition accept_lo :: "nat \<Rightarrow> nat" where
  "accept_lo b0 = (if b0 = 0xE0 then 0xA0 else if b0 = 0xF0 then 0x90 else 0x80)"

definition accept_hi :: "nat \<Rightarrow> nat" where
  "accept_hi b0 = (if b0 = 0xED then 0x9F else if b0 = 0xF4 then 0x8F else 0xBF)"

fun DecodeRune :: "string \<Rightarrow> rune \<times> nat" where
  "DecodeRune [] = (RuneError, 0)"
| "DecodeRune (c0 # cs) =
     (let b0 = byte c0 in
      if b0 < 0x80 then (int b0, 1)
      else if 0xC2 \<le> b0 \<and> b0 \<le> 0xDF then
        (case cs of
           c1 # _ \<Rightarrow>
             if cont (byte c1) then (int ((b0 mod 32) * 64 + byte c1 mod 64), 2)
             else (RuneError, 1)
         | _ \<Rightarrow> (RuneError, 1))
      else if 0xE0 \<le> b0 \<and> b0 \<le> 0xEF then
        (case cs of
           c1 # c2 # _ \<Rightarrow>
             if accept_lo b0 \<le> byte c1 \<and> byte c1 \<le> accept_hi b0 \<and> cont (byte c2)
             then (int ((b0 mod 16) * 4096 + (byte c1 mod 64) * 64 + byte c2 mod 64), 3)
             else (RuneError, 1)
         | _ \<Rightarrow> (RuneError, 1))
      else if 0xF0 \<le> b0 \<and> b0 \<le> 0xF4 then
        (case cs of
           c1 # c2 # c3 # _ \<Rightarrow>
             if accept_lo b0 \<le> byte c1 \<and> byte c1 \<le> accept_hi b0 \<and> cont (byte c2)
                \<and> cont (byte c3)
             then (int ((b0 mod 8) * 262144 + (byte c1 mod 64) * 4096
                        + (byte c2 mod 64) * 64 + byte c3 mod 64), 4)
             else (RuneError, 1)
         | _ \<Rightarrow> (RuneError, 1))
      else (RuneError, 1))"

lemma DecodeRune_width: "s \<noteq> [] \<Longrightarrow> 0 < snd (DecodeRune s)"
  by (cases s) (auto simp: Let_def split: list.splits)

text \<open>The runes a \<open>for _, r := range s\<close> loop visits, in order.\<close>

function runes :: "string \<Rightarrow> rune list" where
  "runes s = (if s = [] then [] else fst (DecodeRune s) # runes (drop (snd (DecodeRune s)) s))"
  by pat_completeness auto
termination
proof (relation "measure length")
  show "wf (measure length)" by simp
next
  fix s :: string
  assume "s \<noteq> []"
  then have "0 < snd (DecodeRune s)" and "0 < length s"
    by (simp_all add: DecodeRune_width)
  then show "(drop (snd (DecodeRune s)) s, s) \<in> measure length"
    by simp
qed

declare runes.simps [simp del]

text \<open>
  \<open>strings.ToLower\<close>, \<open>strings.ToUpper\<close> and \<open>strings.EqualFold\<close>, exact on ASCII
  strings. On a string with bytes from \<open>0x80\<close> on, Go maps the letters through the Unicode
  case tables; those tables are not part of this development, and such a byte is left as
  it is here. Language codes, field tokens, service and model names are ASCII. The
  comparison with \<open>auto\<close> is exact on every string, since no rune outside ASCII folds to
  one of the letters \<open>a\<close>, \<open>u\<close>, \<open>t\<close>, \<open>o\<close>.
\<close>

definition lower_byte :: "char \<Rightarrow> char" where
  "lower_byte c = (if 0x41 \<le> byte c \<and> byte c \<le> 0x5A then char_of (byte c + 32) else c)"

definition upper_byte :: "char \<Rightarrow> char" where
  "upper_byte c = (if 0x61 \<le> byte c \<and> byte c \<le> 0x7A then char_of (byte c - 32) else c)"

definition ToLower :: "string \<Rightarrow> string" where
  "ToLower s = map lower_byte s"

definition ToUpper :: "string \<Rightarrow> string" where
  "ToUpper s = map upper_byte s"

definition EqualFold :: "string \<Rightarrow> string \<Rightarrow> bool" where
  "EqualFold s t = (ToLower s = ToLower t)"

definition HasPrefix :: "string \<Rightarrow> string \<Rightarrow> bool" where
  "HasPrefix s p = prefix p s"

text \<open>
  \<open>strings.TrimSpace\<close> removes the leading and trailing runes for which
  \<open>unicode.IsSpace\<close> holds. Such a rune stands at the start (end) of a string exactly when
  its UTF-8 encoding is a prefix (suffix) of the bytes, so trimming strips these encodings:
  tab, line feed, vertical tab, form feed, carriage return, space, U+0085, U+00A0, U+1680,
  U+2000 to U+200A, U+2028, U+2029, U+202F, U+205F and U+3000.
\<close>

definition space_encodings :: "string list" where
  "space_encodings =
     [[CHR 0x09], [CHR 0x0A], [CHR 0x0B], [CHR 0x0C], [CHR 0x0D], [CHR 0x20],
      [CHR 0xC2, CHR 0x85], [CHR 0xC2, CHR 0xA0], [CHR 0xE1, CHR 0x9A, CHR 0x80],
      [CHR 0xE2, CHR 0x80, CHR 0x80], [CHR 0xE2, CHR 0x80, CHR 0x81],
      [CHR 0xE2, CHR 0x80, CHR 0x82], [CHR 0xE2, CHR 0x80, CHR 0x83],
      [CHR 0xE2, CHR 0x80, CHR 0x84], [CHR 0xE2, CHR 0x80, CHR 0x85],
      [CHR 0xE2, CHR 0x80, CHR 0x86], [CHR 0xE2, CHR 0x80, CHR 0x87],
      [CHR 0xE2, CHR 0x80, CHR 0x88], [CHR 0xE2, CHR 0x80, CHR 0x89],
      [CHR 0xE2, CHR 0x80, CHR 0x8A], [CHR 0xE2, CHR 0x80, CHR 0xA8],
      [CHR 0xE2, CHR 0x80, CHR 0xA9], [CHR 0xE2, CHR 0x80, CHR 0xAF],
      [CHR 0xE2, CHR 0x81, CHR 0x9F], [CHR 0xE3, CHR 0x80, CHR 0x80]]"

definition space_width :: "string list \<Rightarrow> string \<Rightarrow> nat" where
  "space_width encs s = (case find (\<lambda>e. e \<noteq> [] \<and> prefix e s) encs of None \<Rightarrow> 0 | Some e \<Rightarrow> length e)"

lemma space_width_le: "space_width encs s \<le> length s"
  by (auto simp: space_width_def prefix_def split: option.splits dest!: find_Some_iff [THEN iffD1])

function strip_spaces :: "string list \<Rightarrow> string \<Rightarrow> string" where
  "strip_spaces encs s =
     (if space_width encs s = 0 then s else strip_spaces encs (drop (space_width encs s) s))"
  by pat_completeness auto
termination
proof (relation "measure (\<lambda>(encs, s). length s)")
  show "wf (measure (\<lambda>(encs, s). length s))" by simp
next
  fix encs :: "string list" and s :: string
  assume "space_width encs s \<noteq> 0"
  moreover have "space_width encs s \<le> length s" by (rule space_width_le)
  ultimately show "((encs, drop (space_width encs s) s), (encs, s)) \<in> measure (\<lambda>(encs, s). length s)"
    by simp
qed

declare strip_spaces.simps [simp del]

definition TrimLeft :: "string \<Rightarrow> string" where
  "TrimLeft s = strip_spaces space_encodings s"

definition TrimRight :: "string \<Rightarrow> string" where
  "TrimRight s = rev (strip_spaces (map rev space_encodings) (rev s))"

definition TrimSpace :: "string \<Rightarrow> string" where
  "TrimSpace s = TrimRight (TrimLeft s)"

section \<open>Package langutil\<close>

definition IsCJK :: "rune \<Rightarrow> bool" where
  "IsCJK r = ((r \<ge> 0x4E00 \<and> r \<le> 0x9FFF) \<or> (r \<ge> 0x3400 \<and> r \<le> 0x4DBF)
              \<or> (r \<ge> 0x20000 \<and> r \<le> 0x2A6DF))"

definition IsCyrillic :: "rune \<Rightarrow> bool" where
  "IsCyrillic r = (r \<ge> 0x0400 \<and> r \<le> 0x04FF)"

definition IsJapanese :: "rune \<Rightarrow> bool" where
  "IsJapanese r = ((r \<ge> 0x3040 \<and> r \<le> 0x309F) \<or> (r \<ge> 0x30A0 \<and> r \<le> 0x30FF))"

definition IsKorean :: "rune \<Rightarrow> bool" where
  "IsKorean r = (r \<ge> 0xAC00 \<and> r \<le> 0xD7AF)"

definition NormalizeLanguageCode :: "string \<Rightarrow> string" where
  "NormalizeLanguageCode code0 =
     (let code = ToLower code0 in
      if code = ''zh'' \<or> code = ''zh-hans'' then ''zh-CN''
      else if code = ''zh-hant'' then ''zh-TW''
      else if code = ''en'' \<or> code = ''en-us'' then ''en''
      else if code = ''en-gb'' then ''en-GB''
      else if code = ''ja'' then ''ja''
      else if code = ''ko'' then ''ko''
      else if code = ''fr'' then ''fr''
      else if code = ''de'' then ''de''
      else if code = ''es'' then ''es''
      else if code = ''ru'' then ''ru''
      else if code = ''pt'' \<or> code = ''pt-br'' then ''pt''
      else if code = ''it'' then ''it''
      else if code = ''ar'' then ''ar''
      else code)"

text \<open>The body of the loop of \<open>DetectLanguage\<close>, over the runes of the text.\<close>

fun detect_scan :: "rune list \<Rightarrow> string" where
  "detect_scan [] = ''en''"
| "detect_scan (r # rs) =
     (if IsCJK r then ''zh-CN''
      else if IsCyrillic r then ''ru''
      else if IsJapanese r then ''ja''
      else if IsKorean r then ''ko''
      else detect_scan rs)"

definition DetectLanguage :: "string \<Rightarrow> string \<Rightarrow> string" where
  "DetectLanguage text requested =
     (if TrimSpace requested \<noteq> [] \<and> \<not> EqualFold requested ''auto''
      then NormalizeLanguageCode requested
      else detect_scan (runes text))"

fun Includes :: "string list \<Rightarrow> string \<Rightarrow> bool" where
  "Includes [] target = False"
| "Includes (v # params) target = (if v = target then True else Includes params target)"

section \<open>Package translation: the response model\<close>

text \<open>
  A slice is a list (\<open>nil\<close> and the empty slice are both \<open>[]\<close>: the program only takes
  \<open>len\<close> of them and ranges over them), a pointer to a struct is an \<open>option\<close> (\<open>nil\<close> is
  \<open>None\<close>), a \<open>float64\<close> constant is the real number it denotes.
\<close>

record Sentence =
  Orig :: string
  Trans :: string
  Backend :: int
  SrcTranslit :: string
  Translit :: string

record DictEntry =
  Word :: string
  ReverseTranslation :: "string list"
  Score :: real

record Dictionary =
  Pos :: string
  Entry :: "DictEntry list"

record SpellCheck =
  SpellRes :: string

record LanguageDetectionResult =
  Srclangs :: "string list"
  SrclangsConfidences :: "real list"

record Alternative =
  WordPostproc :: string
  Score_alt :: real
  HasPrecedingSpace :: bool
  AttachToNextToken :: bool

record AlternativeTranslation =
  SrcPhrase :: string
  RawSrcSegment :: string
  Alternative :: "Alternative list"

record LabelInfo =
  Subject :: "string list"

record Example =
  Text_ex :: string
  SourceType :: int
  LabelInfo :: "LabelInfo option"

record Examples =
  Examples_list :: "Example list"

record Response =
  Src :: string
  Sentences :: "Sentence list"
  Dict :: "Dictionary list"
  Spell :: "SpellCheck option"
  LDResult :: "LanguageDetectionResult option"
  AlternativeTranslations :: "AlternativeTranslation list"
  Examples :: "Examples option"

text \<open>The zero values of the structs, which a Go composite literal leaves in every field it omits.\<close>

definition Sentence0 :: Sentence where
  "Sentence0 = \<lparr>Orig = [], Trans = [], Backend = 0, SrcTranslit = [], Translit = []\<rparr>"

definition Alternative0 :: Alternative where
  "Alternative0 = \<lparr>WordPostproc = [], Score_alt = 0, HasPrecedingSpace = False,
                    AttachToNextToken = False\<rparr>"

definition AlternativeTranslation0 :: AlternativeTranslation where
  "AlternativeTranslation0 = \<lparr>SrcPhrase = [], RawSrcSegment = [], Alternative = []\<rparr>"

definition Response0 :: Response where
  "Response0 = \<lparr>Src = [], Sentences = [], Dict = [], Spell = None, LDResult = None,
                 AlternativeTranslations = [], Examples = None\<rparr>"

section \<open>Package deeplx: the retrying client\<close>

record TranslationRequest =
  Text :: string
  SourceLang_req :: string
  TargetLang_req :: string

record TranslationResponse =
  Alternatives_resp :: "string list"
  Code :: int
  Data :: string
  ID :: int
  Method :: string
  SourceLang_resp :: string
  TargetLang_resp :: string

record TranslationResult =
  Success :: bool
  TranslatedText_res :: string
  SourceLang_res :: string
  TargetLang_res :: string
  ErrorMessage :: string
  RawResponse :: "TranslationResponse option"

definition TranslationResult0 :: TranslationResult where
  "TranslationResult0 = \<lparr>Success = False, TranslatedText_res = [], SourceLang_res = [],
                          TargetLang_res = [], ErrorMessage = [], RawResponse = None\<rparr>"

text \<open>
  A Go \<open>error\<close> value: its text, and for a \<open>net.Error\<close> what \<open>Timeout()\<close> and
  \<open>Temporary()\<close> answer.
\<close>

datatype go_error = PlainError string | NetError bool bool string

fun error_text :: "go_error \<Rightarrow> string" where
  "error_text (PlainError s) = s"
| "error_text (NetError timeout temporary s) = s"

text \<open>
  A function of the program either returns or panics (here only on a \<open>nil\<close> pointer).
\<close>

datatype 'a exec = Panics | Returns 'a

text \<open>
  \<open>time.Duration\<close> is an \<open>int64\<close> count of nanoseconds; \<open>int64\<close> wraps a mathematical
  integer into the two's complement range, as Go's \<open>int\<close> and \<open>int64\<close> arithmetic does.
\<close>

definition int64 :: "int \<Rightarrow> int" where
  "int64 x = (x + 2 ^ 63) mod 2 ^ 64 - 2 ^ 63"

definition Millisecond :: int where
  "Millisecond = 1000000"

definition Second :: int where
  "Second = 1000 * Millisecond"

record DeepLXTranslator =
  apiKey :: string
  baseURL :: string
  requestTimeout :: int
  maxRetryAttempt :: int

text \<open>The texts of the error messages, as the UTF-8 bytes of the source's string literals.\<close>

definition msg_api_key :: string where
  "msg_api_key = ''API '' @ [CHR 0xE5, CHR 0xAF, CHR 0x86, CHR 0xE9, CHR 0x92, CHR 0xA5,
     CHR 0xE5, CHR 0xBF, CHR 0x85, CHR 0xE9, CHR 0xA1, CHR 0xBB, CHR 0xE4, CHR 0xBB, CHR 0xA5]
     @ '' sk- '' @ [CHR 0xE5, CHR 0xBC, CHR 0x80, CHR 0xE5, CHR 0xA4, CHR 0xB4]"

definition msg_marshal :: string where
  "msg_marshal = [CHR 0xE5, CHR 0xBA, CHR 0x8F, CHR 0xE5, CHR 0x88, CHR 0x97, CHR 0xE5, CHR 0x8C,
     CHR 0x96, CHR 0xE8, CHR 0xAF, CHR 0xB7, CHR 0xE6, CHR 0xB1, CHR 0x82, CHR 0xE5, CHR 0xA4,
     CHR 0xB1, CHR 0xE8, CHR 0xB4, CHR 0xA5] @ '': ''"

definition msg_cancelled :: string where
  "msg_cancelled = [CHR 0xE8, CHR 0xAF, CHR 0xB7, CHR 0xE6, CHR 0xB1, CHR 0x82, CHR 0xE5, CHR 0xB7,
     CHR 0xB2, CHR 0xE5, CHR 0x8F, CHR 0x96, CHR 0xE6, CHR 0xB6, CHR 0x88] @ '': ''"

definition msg_create :: string where
  "msg_create = [CHR 0xE5, CHR 0x88, CHR 0x9B, CHR 0xE5, CHR 0xBB, CHR 0xBA, CHR 0xE8, CHR 0xAF,
     CHR 0xB7, CHR 0xE6, CHR 0xB1, CHR 0x82, CHR 0xE5, CHR 0xA4, CHR 0xB1, CHR 0xE8, CHR 0xB4,
     CHR 0xA5] @ '': ''"

definition msg_request :: string where
  "msg_request = [CHR 0xE8, CHR 0xAF, CHR 0xB7, CHR 0xE6, CHR 0xB1, CHR 0x82, CHR 0xE5, CHR 0xA4,
     CHR 0xB1, CHR 0xE8, CHR 0xB4, CHR 0xA5] @ '': ''"

definition msg_read :: string where
  "msg_read = [CHR 0xE8, CHR 0xAF, CHR 0xBB, CHR 0xE5, CHR 0x8F, CHR 0x96, CHR 0xE5, CHR 0x93,
     CHR 0x8D, CHR 0xE5, CHR 0xBA, CHR 0x94, CHR 0xE5, CHR 0xA4, CHR 0xB1, CHR 0xE8, CHR 0xB4,
     CHR 0xA5] @ '': ''"

definition msg_parse :: string where
  "msg_parse = [CHR 0xE8, CHR 0xA7, CHR 0xA3, CHR 0xE6, CHR 0x9E, CHR 0x90, CHR 0xE5, CHR 0x93,
     CHR 0x8D, CHR 0xE5, CHR 0xBA, CHR 0x94, CHR 0xE5, CHR 0xA4, CHR 0xB1, CHR 0xE8, CHR 0xB4,
     CHR 0xA5] @ '': ''"

definition NewTranslator :: "string \<Rightarrow> go_error + DeepLXTranslator" where
  "NewTranslator key =
     (if key = [] \<or> \<not> HasPrefix key ''sk-'' then Inl (PlainError msg_api_key)
      else Inr \<lparr>apiKey = key, baseURL = ''https://deeplx.jayogo.com/translate'',
                requestTimeout = 10 * Second, maxRetryAttempt = 2\<rparr>)"

definition buildURL :: "DeepLXTranslator \<Rightarrow> string \<Rightarrow> string" where
  "buildURL t model =
     (if model \<noteq> [] then baseURL t @ ''/'' @ apiKey t @ ''/'' @ model
      else baseURL t @ ''/'' @ apiKey t)"

fun shouldRetry :: "go_error option \<Rightarrow> bool" where
  "shouldRetry None = False"
| "shouldRetry (Some (NetError timeout temporary s)) = (timeout \<or> temporary)"
| "shouldRetry (Some (PlainError s)) = False"

definition shouldRetryStatus :: "int \<Rightarrow> bool" where
  "shouldRetryStatus status = (status \<ge> 500 \<and> status < 600)"

definition backoff :: "int \<Rightarrow> int" where
  "backoff attempt = int64 (int64 (200 * int64 (attempt + 1)) * Millisecond)"

text \<open>The decimal text of an integer, as the verb \<open>%d\<close> of \<open>fmt.Sprintf\<close> prints it.\<close>

fun digits :: "nat \<Rightarrow> string" where
  "digits n = (if n < 10 then [char_of (48 + n)] else digits (n div 10) @ [char_of (48 + n mod 10)])"

declare digits.simps [simp del]

definition Itoa :: "int \<Rightarrow> string" where
  "Itoa i = (if i < 0 then ''-'' @ digits (nat (- i)) else digits (nat i))"

text \<open>
  What lies outside the program. One upstream attempt, as the client sees it, is one of:
  \<open>http.NewRequestWithContext\<close> fails; \<open>httpClient.Do\<close> fails with an error (a timeout of
  the per-attempt deadline is such an error); reading the body fails; or a response
  arrives with a status code and a body. The world fixes the outcome of the \<open>n\<close>-th
  attempt for a URL and a request body, and what \<open>encoding/json\<close> makes of the values it
  is given. A context is what \<open>ctx.Err()\<close> answers when it is asked at the start of
  attempt \<open>n\<close> (\<open>None\<close>: not cancelled). Real time is not part of the model: a sleep is
  recorded with its duration.
\<close>

datatype attempt_outcome =
    NewRequestFails go_error
  | DoFails go_error
  | ReadFails go_error
  | Responds int string

type_synonym Context = "nat \<Rightarrow> string option"

record CachedTranslation =
  OriginalText :: string
  SourceLang :: string
  TargetLang :: string
  TranslatedText :: string
  Alternatives :: "string list"
  Service :: string
  Model :: string
  CachedAt :: int
  Version :: int

record world =
  jsonMarshalRequest :: "TranslationRequest \<Rightarrow> go_error + string"
  jsonUnmarshalResponse :: "string \<Rightarrow> go_error + TranslationResponse"
  jsonMarshalCached :: "CachedTranslation \<Rightarrow> go_error + string"
  jsonUnmarshalCached :: "string \<Rightarrow> go_error + CachedTranslation"
  upstream :: "nat \<Rightarrow> string \<Rightarrow> string \<Rightarrow> attempt_outcome"
  nowUnixMilli :: int

datatype event = HttpCall nat | Sleep int

definition failure :: "string \<Rightarrow> TranslationResult option" where
  "failure msg = Some (TranslationResult0\<lparr>Success := False, ErrorMessage := msg\<rparr>)"

definition after :: "event list \<Rightarrow> 'a \<times> event list \<Rightarrow> 'a \<times> event list" where
  "after evs p = (fst p, evs @ snd p)"

text \<open>
  The loop of \<open>doRequest\<close>, from the iteration with counter \<open>attempt\<close> and last error
  \<open>lastErr\<close>: the result and the upstream calls and sleeps made, in order. The counter only
  grows up to \<open>maxRetryAttempt + 1\<close>, which stays an \<open>int\<close> for every
  \<open>maxRetryAttempt\<close> below \<open>2^63 - 1\<close> (both constructors set it to 2).
\<close>

function doRequest_loop ::
  "DeepLXTranslator \<Rightarrow> world \<Rightarrow> Context \<Rightarrow> string \<Rightarrow> string \<Rightarrow> int \<Rightarrow> string
   \<Rightarrow> TranslationResult option \<times> event list" where
  "doRequest_loop t w ctx url jsonData attempt lastErr =
     (if attempt \<le> maxRetryAttempt t then
        (case ctx (nat attempt) of
           Some err \<Rightarrow> (failure (msg_cancelled @ err), [])
         | None \<Rightarrow>
            (case upstream w (nat attempt) url jsonData of
               NewRequestFails err \<Rightarrow> (failure (msg_create @ error_text err), [])
             | DoFails err \<Rightarrow>
                 if shouldRetry (Some err) \<and> attempt < maxRetryAttempt t
                 then after [HttpCall (nat attempt), Sleep (backoff attempt)]
                        (doRequest_loop t w ctx url jsonData (attempt + 1)
                           (msg_request @ error_text err))
                 else (failure (msg_request @ error_text err), [HttpCall (nat attempt)])
             | ReadFails readErr \<Rightarrow>
                 if attempt < maxRetryAttempt t
                 then after [HttpCall (nat attempt), Sleep (backoff attempt)]
                        (doRequest_loop t w ctx url jsonData (attempt + 1)
                           (msg_read @ error_text readErr))
                 else (failure (msg_read @ error_text readErr), [HttpCall (nat attempt)])
             | Responds status body \<Rightarrow>
                 if status \<noteq> 200 then
                   (if shouldRetryStatus status \<and> attempt < maxRetryAttempt t
                    then after [HttpCall (nat attempt), Sleep (backoff attempt)]
                           (doRequest_loop t w ctx url jsonData (attempt + 1)
                              (''HTTP '' @ Itoa status @ '': '' @ body))
                    else (failure (''HTTP '' @ Itoa status @ '': '' @ body),
                          [HttpCall (nat attempt)]))
                 else
                   (case jsonUnmarshalResponse w body of
                      Inl err \<Rightarrow>
                        if attempt < maxRetryAttempt t
                        then after [HttpCall (nat attempt), Sleep (backoff attempt)]
                               (doRequest_loop t w ctx url jsonData (attempt + 1)
                                  (msg_parse @ error_text err))
                        else (failure (msg_parse @ error_text err), [HttpCall (nat attempt)])
                    | Inr translationResp \<Rightarrow>
                        (Some \<lparr>Success = True, TranslatedText_res = Data translationResp,
                               SourceLang_res = SourceLang_resp translationResp,
                               TargetLang_res = TargetLang_resp translationResp,
                               ErrorMessage = [], RawResponse = Some translationResp\<rparr>,
                         [HttpCall (nat attempt)]))))
      else (failure lastErr, []))"
  by pat_completeness auto
termination
  by (relation "measure (\<lambda>(t, w, ctx, url, jsonData, attempt, lastErr).
                  nat (maxRetryAttempt t + 1 - attempt))") auto

declare doRequest_loop.simps [simp del]

text \<open>A \<open>nil\<close> context is replaced by \<open>context.Background()\<close>, which is never cancelled.\<close>

definition Background :: Context where
  "Background = (\<lambda>n. None)"

definition doRequest ::
  "DeepLXTranslator \<Rightarrow> world \<Rightarrow> Context option \<Rightarrow> TranslationRequest \<Rightarrow> string
   \<Rightarrow> TranslationResult option \<times> event list" where
  "doRequest t w ctx req model =
     (let url = buildURL t model in
      case jsonMarshalRequest w req of
        Inl err \<Rightarrow> (failure (msg_marshal @ error_text err), [])
      | Inr jsonData \<Rightarrow>
          doRequest_loop t w (case ctx of None \<Rightarrow> Background | Some c \<Rightarrow> c) url jsonData 0 [])"

definition first_source :: "string list \<Rightarrow> string" where
  "first_source sourceLang =
     (case sourceLang of [] \<Rightarrow> [] | s # rest \<Rightarrow> if s \<noteq> [] then ToUpper s else [])"

definition TranslateWithContext ::
  "DeepLXTranslator \<Rightarrow> world \<Rightarrow> Context option \<Rightarrow> string \<Rightarrow> string \<Rightarrow> string list
   \<Rightarrow> TranslationResult option \<times> event list" where
  "TranslateWithContext t w ctx text targetLang sourceLang =
     doRequest t w ctx
       \<lparr>Text = text, SourceLang_req = first_source sourceLang,
        TargetLang_req = ToUpper targetLang\<rparr> []"

definition TranslateWithModelContext ::
  "DeepLXTranslator \<Rightarrow> world \<Rightarrow> Context option \<Rightarrow> string \<Rightarrow> string \<Rightarrow> string \<Rightarrow> string list
   \<Rightarrow> TranslationResult option \<times> event list" where
  "TranslateWithModelContext t w ctx text targetLang model sourceLang =
     doRequest t w ctx
       \<lparr>Text = text, SourceLang_req = first_source sourceLang,
        TargetLang_req = ToUpper targetLang\<rparr> model"



section \<open>Package cache: key derivation\<close>

subsection \<open>SHA-256 and hexadecimal encoding\<close>

text \<open>
  \<open>sha256.Sum256\<close> (FIPS 180-4) on 32-bit words, and \<open>hex.EncodeToString\<close>.
\<close>

type_synonym u32 = "32 word"

definition Ch :: "u32 \<Rightarrow> u32 \<Rightarrow> u32 \<Rightarrow> u32" where
  "Ch x y z = (x AND y) XOR (NOT x AND z)"

definition Maj :: "u32 \<Rightarrow> u32 \<Rightarrow> u32 \<Rightarrow> u32" where
  "Maj x y z = (x AND y) XOR (x AND z) XOR (y AND z)"

definition Sigma0 :: "u32 \<Rightarrow> u32" where
  "Sigma0 x = word_rotr 2 x XOR word_rotr 13 x XOR word_rotr 22 x"

definition Sigma1 :: "u32 \<Rightarrow> u32" where
  "Sigma1 x = word_rotr 6 x XOR word_rotr 11 x XOR word_rotr 25 x"

definition sigma0 :: "u32 \<Rightarrow> u32" where
  "sigma0 x = word_rotr 7 x XOR word_rotr 18 x XOR drop_bit 3 x"

definition sigma1 :: "u32 \<Rightarrow> u32" where
  "sigma1 x = word_rotr 17 x XOR word_rotr 19 x XOR drop_bit 10 x"

text \<open>
  The constants are, as the standard defines them, the first 32 bits of the fractional
  parts of the cube roots of the first 64 primes (the round constants) and of the square
  roots of the first 8 primes (the initial hash value). \<open>floor_root k n\<close> is the integer
  part of the \<open>k\<close>-th root of \<open>n\<close>, built bit by bit from bit 63 down.
\<close>

definition is_prime :: "nat \<Rightarrow> bool" where
  "is_prime n = (1 < n \<and> list_all (\<lambda>d. n mod d \<noteq> 0) [2..<n])"

fun root_bits :: "nat \<Rightarrow> nat \<Rightarrow> nat \<Rightarrow> nat \<Rightarrow> nat" where
  "root_bits k n r 0 = r"
| "root_bits k n r (Suc b) = root_bits k n (if (r + 2 ^ b) ^ k \<le> n then r + 2 ^ b else r) b"

definition floor_root :: "nat \<Rightarrow> nat \<Rightarrow> nat" where
  "floor_root k n = root_bits k n 0 64"

definition K256 :: "u32 list" where
  "K256 = map (\<lambda>p. word_of_nat (floor_root 3 (p * 2 ^ 96))) (filter is_prime [2..<312])"

definition H256 :: "u32 list" where
  "H256 = map (\<lambda>p. word_of_nat (floor_root 2 (p * 2 ^ 64))) (filter is_prime [2..<20])"

text \<open>Padding: the byte \<open>0x80\<close>, zeros up to 56 modulo 64, the bit length in 8 bytes, big-endian.\<close>

definition be_bytes :: "nat \<Rightarrow> nat \<Rightarrow> nat list" where
  "be_bytes k n = map (\<lambda>i. (n div 256 ^ (k - 1 - i)) mod 256) [0..<k]"

definition sha_pad :: "nat list \<Rightarrow> nat list" where
  "sha_pad m = m @ [0x80] @ replicate ((64 - (length m + 9) mod 64) mod 64) 0
               @ be_bytes 8 (8 * length m)"

fun be_words :: "nat list \<Rightarrow> u32 list" where
  "be_words (a # b # c # d # rest) =
     word_of_nat (((a * 256 + b) * 256 + c) * 256 + d) # be_words rest"
| "be_words rest = []"

fun schedule :: "nat \<Rightarrow> u32 list \<Rightarrow> u32 list" where
  "schedule 0 ws = ws"
| "schedule (Suc n) ws =
     schedule n (ws @ [sigma1 (ws ! (length ws - 2)) + ws ! (length ws - 7)
                       + sigma0 (ws ! (length ws - 15)) + ws ! (length ws - 16)])"

fun sha_round :: "u32 list \<Rightarrow> u32 \<times> u32 \<Rightarrow> u32 list" where
  "sha_round [a, b, c, d, e, f, g, h] (k, x) =
     (let T1 = h + Sigma1 e + Ch e f g + k + x; T2 = Sigma0 a + Maj a b c
      in [T1 + T2, a, b, c, d + T1, e, f, g])"
| "sha_round st kx = st"

definition compress :: "u32 list \<Rightarrow> u32 list \<Rightarrow> u32 list" where
  "compress hs block =
     map2 (+) hs (foldl sha_round hs (zip K256 (schedule 48 block)))"

fun sha_blocks :: "u32 list \<Rightarrow> u32 list \<Rightarrow> u32 list" where
  "sha_blocks hs ws =
     (if length ws < 16 then hs else sha_blocks (compress hs (take 16 ws)) (drop 16 ws))"

declare sha_blocks.simps [simp del]

definition Sum256 :: "string \<Rightarrow> string" where
  "Sum256 data =
     map char_of (concat (map (\<lambda>x. be_bytes 4 (unat x))
       (sha_blocks H256 (be_words (sha_pad (map byte data))))))"

definition hex_digit :: "nat \<Rightarrow> char" where
  "hex_digit n = ''0123456789abcdef'' ! n"

definition EncodeToString :: "string \<Rightarrow> string" where
  "EncodeToString bs = concat (map (\<lambda>c. [hex_digit (byte c div 16), hex_digit (byte c mod 16)]) bs)"

subsection \<open>KeyGenerator\<close>

definition KeyPrefix :: string where
  "KeyPrefix = ''translate''"

definition SharedServiceName :: string where
  "SharedServiceName = ''shared''"

record KeyGenerator =
  shareAcrossServices :: bool

definition NewKeyGenerator :: "bool \<Rightarrow> KeyGenerator" where
  "NewKeyGenerator share = \<lparr>shareAcrossServices = share\<rparr>"

definition normalized :: "string \<Rightarrow> string \<Rightarrow> string \<Rightarrow> string \<Rightarrow> string" where
  "normalized text sourceLang targetLang model =
     TrimSpace text @ ''|'' @ ToLower (TrimSpace sourceLang) @ ''|''
     @ ToLower (TrimSpace targetLang) @ ''|'' @ ToLower (TrimSpace model)"

definition computeHash :: "KeyGenerator \<Rightarrow> string \<Rightarrow> string \<Rightarrow> string \<Rightarrow> string \<Rightarrow> string" where
  "computeHash g text sourceLang targetLang model =
     EncodeToString (take 8 (Sum256 (normalized text sourceLang targetLang model)))"

definition Generate ::
  "KeyGenerator \<Rightarrow> string \<Rightarrow> string \<Rightarrow> string \<Rightarrow> string \<Rightarrow> string \<Rightarrow> string" where
  "Generate g service text sourceLang targetLang model =
     (let hash = computeHash g text sourceLang targetLang model in
      if shareAcrossServices g then KeyPrefix @ '':'' @ SharedServiceName @ '':'' @ hash
      else KeyPrefix @ '':'' @ ToLower service @ '':'' @ hash)"

definition GenerateCacheKey :: "string \<Rightarrow> string \<Rightarrow> string \<Rightarrow> string \<Rightarrow> string \<Rightarrow> string" where
  "GenerateCacheKey service text sourceLang targetLang model =
     Generate (NewKeyGenerator False) service text sourceLang targetLang model"

definition GenerateSharedCacheKey :: "string \<Rightarrow> string \<Rightarrow> string \<Rightarrow> string \<Rightarrow> string" where
  "GenerateSharedCacheKey text sourceLang targetLang model =
     Generate (NewKeyGenerator True) [] text sourceLang targetLang model"




section \<open>Package deeplx: the format adapter\<close>

record GoogleTranslator =
  translator :: DeepLXTranslator
  name :: string

definition NewGoogleTranslator :: "string \<Rightarrow> go_error + GoogleTranslator" where
  "NewGoogleTranslator key =
     (case NewTranslator key of
        Inl err \<Rightarrow> Inl err
      | Inr t \<Rightarrow> Inr \<lparr>translator = t, name = ''DeepLX''\<rparr>)"

definition convertToGoogleFormat ::
  "GoogleTranslator \<Rightarrow> string \<Rightarrow> TranslationResult \<Rightarrow> string list \<Rightarrow> Response" where
  "convertToGoogleFormat g originalText result dt =
     (let detectedLang0 = NormalizeLanguageCode (SourceLang_res result);
          detectedLang = (if detectedLang0 = [] then DetectLanguage originalText []
                          else detectedLang0);
          resp0 = Response0\<lparr>Src := detectedLang,
                    LDResult := Some \<lparr>Srclangs = [detectedLang],
                                      SrclangsConfidences = [0.99]\<rparr>\<rparr>;
          resp1 = (if Includes dt ''t''
                   then resp0\<lparr>Sentences := Sentences resp0 @
                          [Sentence0\<lparr>Orig := originalText,
                                     Trans := TranslatedText_res result, Backend := 1\<rparr>]\<rparr>
                   else resp0);
          resp2 = (if Includes dt ''rm''
                   then resp1\<lparr>Sentences := Sentences resp1 @
                          [Sentence0\<lparr>SrcTranslit := originalText,
                                     Translit := ToUpper originalText\<rparr>]\<rparr>
                   else resp1);
          resp3 = (if Includes dt ''bd''
                   then resp2\<lparr>Dict :=
                          [\<lparr>Pos = ''translation'',
                            Entry = [\<lparr>Word = TranslatedText_res result,
                                      ReverseTranslation = [originalText],
                                      Score = 0.95\<rparr>]\<rparr>]\<rparr>
                   else resp2);
          resp4 = (if Includes dt ''qca''
                   then resp3\<lparr>Spell := Some \<lparr>SpellRes = originalText\<rparr>\<rparr>
                   else resp3);
          resp5 = (if Includes dt ''ex''
                   then resp4\<lparr>Examples := Some \<lparr>Examples_list = []\<rparr>\<rparr>
                   else resp4)
      in resp5)"

definition buildErrorResponse ::
  "GoogleTranslator \<Rightarrow> string \<Rightarrow> string \<Rightarrow> string \<Rightarrow> Response" where
  "buildErrorResponse g q sl tl' =
     (let detectedLang = (if sl = [] \<or> EqualFold sl ''auto'' then DetectLanguage q sl else sl)
      in Response0\<lparr>Src := detectedLang,
           Sentences := [Sentence0\<lparr>Orig := q, Trans := q\<rparr>],
           LDResult := Some \<lparr>Srclangs = [detectedLang], SrclangsConfidences = [0.5]\<rparr>\<rparr>)"

text \<open>
  A service call returns a pair of a response pointer and an error, or panics.
  \<open>translateFunc\<close> is the type of the client method \<open>doTranslate\<close> is given; its result
  is dereferenced without a \<open>nil\<close> check.
\<close>

type_synonym reply = "(Response option \<times> go_error option) exec"

type_synonym translateFunc =
  "Context option \<Rightarrow> string \<Rightarrow> string \<Rightarrow> string list \<Rightarrow> TranslationResult option \<times> event list"

definition doTranslate ::
  "GoogleTranslator \<Rightarrow> Context option \<Rightarrow> string \<Rightarrow> string \<Rightarrow> string \<Rightarrow> string list
   \<Rightarrow> translateFunc \<Rightarrow> reply \<times> event list" where
  "doTranslate g ctx q sl tl' dt fn =
     (let (result, evs) = (if sl \<noteq> [] \<and> \<not> EqualFold sl ''auto'' then fn ctx q tl' [sl]
                           else fn ctx q tl' [])
      in case result of
           None \<Rightarrow> (Panics, evs)
         | Some r \<Rightarrow>
             if \<not> Success r then (Returns (Some (buildErrorResponse g q sl tl'), None), evs)
             else (Returns (Some (convertToGoogleFormat g q r dt), None), evs))"

definition GoogleTranslator_Translate ::
  "GoogleTranslator \<Rightarrow> world \<Rightarrow> Context option \<Rightarrow> string \<Rightarrow> string \<Rightarrow> string \<Rightarrow> string list
   \<Rightarrow> reply \<times> event list" where
  "GoogleTranslator_Translate g w ctx q sl tl' dt =
     doTranslate g ctx q sl tl' dt (TranslateWithContext (translator g) w)"

definition GoogleTranslator_TranslateWithModel ::
  "GoogleTranslator \<Rightarrow> world \<Rightarrow> Context option \<Rightarrow> string \<Rightarrow> string \<Rightarrow> string \<Rightarrow> string list
   \<Rightarrow> string \<Rightarrow> reply \<times> event list" where
  "GoogleTranslator_TranslateWithModel g w ctx q sl tl' dt model =
     doTranslate g ctx q sl tl' dt
       (\<lambda>ctx' text targetLang sourceLang.
          TranslateWithModelContext (translator g) w ctx' text targetLang model sourceLang)"

section \<open>Package cache: the cache-aside decorator\<close>

text \<open>
  The interfaces \<open>TranslationService\<close> and \<open>Cache\<close> are records of the methods the
  decorator calls. A \<open>[]byte\<close> is a string, \<open>nil\<close> is \<open>None\<close>.
\<close>

record TranslationService =
  TranslateWithModel ::
    "Context option \<Rightarrow> string \<Rightarrow> string \<Rightarrow> string \<Rightarrow> string list \<Rightarrow> string \<Rightarrow> reply"
  GetName :: string

record Cache =
  Get :: "Context option \<Rightarrow> string \<Rightarrow> string option \<times> go_error option"
  Set_cache :: "string \<Rightarrow> string \<Rightarrow> int \<Rightarrow> go_error option"

definition CacheFormatVersion :: int where
  "CacheFormatVersion = 1"

definition defaultCacheWriteTimeout :: int where
  "defaultCacheWriteTimeout = 5 * Second"

record CachedServiceConfig =
  TTL :: int
  Enabled :: bool
  ShareAcrossServices :: bool
  WriteTimeout :: int

record CachedTranslationService =
  service :: TranslationService
  cache :: "Cache option"
  keyGenerator :: KeyGenerator
  ttl :: int
  enabled :: bool
  writeTimeout :: int

definition NewCachedTranslationService ::
  "TranslationService \<Rightarrow> Cache option \<Rightarrow> CachedServiceConfig \<Rightarrow> CachedTranslationService" where
  "NewCachedTranslationService svc ca cfg =
     \<lparr>service = svc, cache = ca, keyGenerator = NewKeyGenerator (ShareAcrossServices cfg),
      ttl = TTL cfg, enabled = Enabled cfg,
      writeTimeout = (if WriteTimeout cfg \<le> 0 then defaultCacheWriteTimeout
                      else WriteTimeout cfg)\<rparr>"

definition getFromCache ::
  "CachedTranslationService \<Rightarrow> world \<Rightarrow> Context option \<Rightarrow> string
   \<Rightarrow> (CachedTranslation option \<times> go_error option) exec" where
  "getFromCache c w ctx key =
     (case cache c of
        None \<Rightarrow> Panics
      | Some ca \<Rightarrow>
         (case Get ca ctx key of
            (data, Some err) \<Rightarrow> Returns (None, Some err)
          | (None, None) \<Rightarrow> Returns (None, None)
          | (Some data, None) \<Rightarrow>
             (case jsonUnmarshalCached w data of
                Inl err \<Rightarrow> Returns (None, Some err)
              | Inr cached \<Rightarrow>
                  if Version cached \<noteq> CacheFormatVersion then Returns (None, None)
                  else Returns (Some cached, None))))"

definition buildCachedTranslation ::
  "CachedTranslationService \<Rightarrow> world \<Rightarrow> string \<Rightarrow> string \<Rightarrow> string \<Rightarrow> string \<Rightarrow> Response
   \<Rightarrow> CachedTranslation" where
  "buildCachedTranslation c w originalText sourceLang targetLang model resp =
     (let cached0 = \<lparr>OriginalText = originalText, SourceLang = Src resp,
                      TargetLang = targetLang, TranslatedText = [], Alternatives = [],
                      Service = GetName (service c), Model = model,
                      CachedAt = nowUnixMilli w, Version = CacheFormatVersion\<rparr>;
          cached1 = (if SourceLang cached0 = [] then cached0\<lparr>SourceLang := sourceLang\<rparr>
                     else cached0);
          cached2 = (if length (Sentences resp) > 0
                     then cached1\<lparr>TranslatedText :=
                            foldl (\<lambda>translatedText sentence. translatedText @ Trans sentence)
                              [] (Sentences resp)\<rparr>
                     else cached1);
          alternatives =
            filter (\<lambda>a. a \<noteq> [] \<and> a \<noteq> TranslatedText cached2)
              (concat (map (\<lambda>alt. map WordPostproc (Alternative alt))
                         (AlternativeTranslations resp)))
      in if length (AlternativeTranslations resp) > 0 \<and> length alternatives > 0
         then cached2\<lparr>Alternatives := alternatives\<rparr>
         else cached2)"

definition buildResponseFromCache ::
  "CachedTranslationService \<Rightarrow> CachedTranslation \<Rightarrow> Response" where
  "buildResponseFromCache c cached =
     (let resp = Response0\<lparr>Src := SourceLang cached,
                   Sentences := [Sentence0\<lparr>Orig := OriginalText cached,
                                            Trans := TranslatedText cached\<rparr>]\<rparr>
      in if length (Alternatives cached) > 0
         then resp\<lparr>AlternativeTranslations :=
                [AlternativeTranslation0\<lparr>SrcPhrase := OriginalText cached,
                   Alternative := map (\<lambda>alt. Alternative0\<lparr>WordPostproc := alt\<rparr>)
                                   (Alternatives cached)\<rparr>]\<rparr>
         else resp)"

text \<open>
  What a call of the decorator does besides returning: the cache read, the call of the
  wrapped service, and the goroutine it starts to save the response (\<open>go
  c.saveToCacheWithTimeout(...)\<close>), each with its arguments. Logging is left out.
\<close>

datatype effect =
    CacheRead string
  | InnerCall string string string "string list" string
  | GoSave string string string string string "Response option"

definition Cached_TranslateWithModel ::
  "CachedTranslationService \<Rightarrow> world \<Rightarrow> Context option \<Rightarrow> string \<Rightarrow> string \<Rightarrow> string
   \<Rightarrow> string list \<Rightarrow> string \<Rightarrow> reply \<times> effect list" where
  "Cached_TranslateWithModel c w ctx q sl tl' dt model =
     (if \<not> enabled c \<or> cache c = None
      then (TranslateWithModel (service c) ctx q sl tl' dt model, [InnerCall q sl tl' dt model])
      else
        let serviceName = GetName (service c);
            key = Generate (keyGenerator c) serviceName q sl tl' model
        in case getFromCache c w ctx key of
             Panics \<Rightarrow> (Panics, [CacheRead key])
           | Returns (Some cached, None) \<Rightarrow>
               (Returns (Some (buildResponseFromCache c cached), None), [CacheRead key])
           | Returns miss \<Rightarrow>
              (case TranslateWithModel (service c) ctx q sl tl' dt model of
                 Panics \<Rightarrow> (Panics, [CacheRead key, InnerCall q sl tl' dt model])
               | Returns (resp, Some err) \<Rightarrow>
                   (Returns (None, Some err), [CacheRead key, InnerCall q sl tl' dt model])
               | Returns (resp, None) \<Rightarrow>
                   (Returns (resp, None),
                    [CacheRead key, InnerCall q sl tl' dt model,
                     GoSave key q sl tl' model resp])))"

definition Cached_Translate ::
  "CachedTranslationService \<Rightarrow> world \<Rightarrow> Context option \<Rightarrow> string \<Rightarrow> string \<Rightarrow> string
   \<Rightarrow> string list \<Rightarrow> reply \<times> effect list" where
  "Cached_Translate c w ctx q sl tl' dt = Cached_TranslateWithModel c w ctx q sl tl' dt []"

text \<open>
  The goroutine: \<open>saveToCache\<close> builds the entry, serializes it and calls \<open>Set\<close>; the
  result is the list of \<open>Set\<close> calls it makes (key, bytes, TTL). A failure of the
  serialization or of \<open>Set\<close> is only logged.
\<close>

definition saveToCache ::
  "CachedTranslationService \<Rightarrow> world \<Rightarrow> string \<Rightarrow> string \<Rightarrow> string \<Rightarrow> string \<Rightarrow> string
   \<Rightarrow> Response option \<Rightarrow> (string \<times> string \<times> int) list exec" where
  "saveToCache c w key originalText sourceLang targetLang model resp =
     (case resp of
        None \<Rightarrow> Panics
      | Some r \<Rightarrow>
         (case jsonMarshalCached w
                 (buildCachedTranslation c w originalText sourceLang targetLang model r) of
            Inl err \<Rightarrow> Returns []
          | Inr data \<Rightarrow>
             (case cache c of
                None \<Rightarrow> Panics
              | Some ca \<Rightarrow> Returns [(key, data, ttl c)])))"

text \<open>The adapter as a \<open>TranslationService\<close>, to be wrapped by the decorator.\<close>

definition GoogleService :: "GoogleTranslator \<Rightarrow> world \<Rightarrow> TranslationService" where
  "GoogleService g w =
     \<lparr>TranslateWithModel =
        (\<lambda>ctx q sl tl' dt model. fst (GoogleTranslator_TranslateWithModel g w ctx q sl tl' dt model)),
      GetName = name g\<rparr>"



section \<open>Observing a run\<close>

text \<open>
  The upstream attempts of a run are the \<open>HttpCall\<close> events of its trace. \<open>retry_trace n\<close>
  is the trace of \<open>n\<close> failed attempts, each followed by a sleep of the number of attempts
  made so far times 200 milliseconds.
\<close>

fun is_call :: "event \<Rightarrow> bool" where
  "is_call (HttpCall n) = True"
| "is_call (Sleep d) = False"

definition attempts :: "event list \<Rightarrow> nat" where
  "attempts tr = length (filter is_call tr)"

definition retry_trace :: "nat \<Rightarrow> nat \<Rightarrow> event list" where
  "retry_trace k n =
     concat (map (\<lambda>i. [HttpCall i, Sleep ((int i + 1) * (200 * Millisecond))]) [k..<k + n])"

text \<open>
  One pass through the body of the loop of \<open>doRequest\<close>: it either leaves the function
  with a result (\<open>Stop\<close>) or reaches a \<open>continue\<close> with a new last error (\<open>Retry\<close>).
\<close>

datatype step = Stop "TranslationResult option" "event list" | Retry string

definition iteration ::
  "DeepLXTranslator \<Rightarrow> world \<Rightarrow> Context \<Rightarrow> string \<Rightarrow> string \<Rightarrow> int \<Rightarrow> string \<Rightarrow> step" where
  "iteration t w ctx url jsonData attempt lastErr =
     (if attempt \<le> maxRetryAttempt t then
        (case ctx (nat attempt) of
           Some err \<Rightarrow> Stop (failure (msg_cancelled @ err)) []
         | None \<Rightarrow>
            (case upstream w (nat attempt) url jsonData of
               NewRequestFails err \<Rightarrow> Stop (failure (msg_create @ error_text err)) []
             | DoFails err \<Rightarrow>
                 if shouldRetry (Some err) \<and> attempt < maxRetryAttempt t
                 then Retry (msg_request @ error_text err)
                 else Stop (failure (msg_request @ error_text err)) [HttpCall (nat attempt)]
             | ReadFails readErr \<Rightarrow>
                 if attempt < maxRetryAttempt t then Retry (msg_read @ error_text readErr)
                 else Stop (failure (msg_read @ error_text readErr)) [HttpCall (nat attempt)]
             | Responds status body \<Rightarrow>
                 if status \<noteq> 200 then
                   (if shouldRetryStatus status \<and> attempt < maxRetryAttempt t
                    then Retry (''HTTP '' @ Itoa status @ '': '' @ body)
                    else Stop (failure (''HTTP '' @ Itoa status @ '': '' @ body))
                           [HttpCall (nat attempt)])
                 else
                   (case jsonUnmarshalResponse w body of
                      Inl err \<Rightarrow>
                        if attempt < maxRetryAttempt t then Retry (msg_parse @ error_text err)
                        else Stop (failure (msg_parse @ error_text err)) [HttpCall (nat attempt)]
                    | Inr translationResp \<Rightarrow>
                        Stop (Some \<lparr>Success = True, TranslatedText_res = Data translationResp,
                                     SourceLang_res = SourceLang_resp translationResp,
                                     TargetLang_res = TargetLang_resp translationResp,
                                     ErrorMessage = [], RawResponse = Some translationResp\<rparr>)
                          [HttpCall (nat attempt)])))
      else Stop (failure lastErr) [])"

text \<open>
  The language heuristic in the words of its description: the first rune of the text that
  lies in a recognized script range decides, by its script family; with no such rune the
  answer is \<open>en\<close>.
\<close>

definition recognized :: "rune \<Rightarrow> bool" where
  "recognized r = (IsCJK r \<or> IsCyrillic r \<or> IsJapanese r \<or> IsKorean r)"

definition script_code :: "rune \<Rightarrow> string" where
  "script_code r =
     (if IsCJK r then ''zh-CN'' else if IsCyrillic r then ''ru''
      else if IsJapanese r then ''ja'' else ''ko'')"

definition first_script :: "rune list \<Rightarrow> string" where
  "first_script rs = (case find recognized rs of None \<Rightarrow> ''en'' | Some r \<Rightarrow> script_code r)"

text \<open>A cache that answers every read with absence, and is otherwise the given one.\<close>

definition emptied :: "Cache \<Rightarrow> Cache" where
  "emptied ca = ca\<lparr>Get := (\<lambda>ctx key. (None, None))\<rparr>"

section \<open>Example inputs\<close>

text \<open>
  A translator as \<open>NewTranslator "sk-test"\<close> builds it, the adapter over it, and a response
  with a translation sentence and a transliteration sentence.
\<close>

definition ex_translator :: DeepLXTranslator where
  "ex_translator = \<lparr>apiKey = ''sk-test'', baseURL = ''https://deeplx.jayogo.com/translate'',
                     requestTimeout = 10 * Second, maxRetryAttempt = 2\<rparr>"

definition ex_google :: GoogleTranslator where
  "ex_google = \<lparr>translator = ex_translator, name = ''DeepLX''\<rparr>"

definition ex_response :: Response where
  "ex_response = Response0\<lparr>Src := ''en'',
     Sentences := [Sentence0\<lparr>Orig := ''Hello'', Trans := ''Bonjour'', Backend := 1\<rparr>,
                   Sentence0\<lparr>Orig := '' world'', Trans := '' monde'', Backend := 1\<rparr>]\<rparr>"

definition ex_request :: TranslationRequest where
  "ex_request = \<lparr>Text = ''Hello'', SourceLang_req = ''EN'', TargetLang_req = ''ZH''\<rparr>"

text \<open>
  A cache entry of the current format version, and the same entry under version 0.
\<close>

definition ex_entry :: CachedTranslation where
  "ex_entry = \<lparr>OriginalText = ''Hello'', SourceLang = ''en'', TargetLang = ''zh'',
                TranslatedText = ''ni hao'', Alternatives = [], Service = ''DeepLX'',
                Model = [], CachedAt = 1700000000000, Version = 1\<rparr>"

definition ex_stale :: CachedTranslation where
  "ex_stale = ex_entry\<lparr>Version := 0\<rparr>"

text \<open>
  A world whose upstream answers every attempt with HTTP 500. Its JSON functions are
  stand-ins that fix only what the examples need: the cached bytes \<open>v1\<close> and \<open>v0\<close>
  decode to the two entries above, any other bytes fail to decode.
\<close>

definition ex_world_500 :: world where
  "ex_world_500 =
     \<lparr>jsonMarshalRequest = (\<lambda>req. Inr (Text req)),
      jsonUnmarshalResponse = (\<lambda>body. Inl (PlainError ''invalid character'')),
      jsonMarshalCached = (\<lambda>cached. Inr (TranslatedText cached)),
      jsonUnmarshalCached =
        (\<lambda>data. if data = ''v1'' then Inr ex_entry
                else if data = ''v0'' then Inr ex_stale
                else Inl (PlainError ''unexpected end of JSON input'')),
      upstream = (\<lambda>n url body. Responds 500 ''Internal Server Error''),
      nowUnixMilli = 1700000000000\<rparr>"

text \<open>
  A world whose upstream answers the first attempt with status 200 and a body that is not
  JSON, and every later attempt with status 200 and a body that decodes.
\<close>

definition ex_payload :: TranslationResponse where
  "ex_payload = \<lparr>Alternatives_resp = [], Code = 200, Data = ''ni hao'', ID = 1,
                  Method = ''Free'', SourceLang_resp = ''EN'', TargetLang_resp = ''ZH''\<rparr>"

definition ex_result :: TranslationResult where
  "ex_result = \<lparr>Success = True, TranslatedText_res = ''ni hao'', SourceLang_res = ''EN'',
                 TargetLang_res = ''ZH'', ErrorMessage = [], RawResponse = Some ex_payload\<rparr>"

definition ex_world_retry :: world where
  "ex_world_retry =
     ex_world_500
       \<lparr>jsonUnmarshalResponse :=
          (\<lambda>body. if body = ''<html>'' then Inl (PlainError ''invalid character'')
                  else Inr ex_payload),
        upstream := (\<lambda>n url body. if n = 0 then Responds 200 ''<html>''
                                     else Responds 200 ''{}'')\<rparr>"

text \<open>
  Three caches: one that holds nothing, one that answers every key with the bytes of the
  current entry, one that answers with the bytes of the version-0 entry; and the decorator,
  with caching enabled, around the adapter.
\<close>

definition ex_cache_miss :: Cache where
  "ex_cache_miss = \<lparr>Get = (\<lambda>ctx key. (None, None)), Set_cache = (\<lambda>key val t. None)\<rparr>"

definition ex_cache_hit :: Cache where
  "ex_cache_hit = \<lparr>Get = (\<lambda>ctx key. (Some ''v1'', None)), Set_cache = (\<lambda>key val t. None)\<rparr>"

definition ex_cache_stale :: Cache where
  "ex_cache_stale = \<lparr>Get = (\<lambda>ctx key. (Some ''v0'', None)), Set_cache = (\<lambda>key val t. None)\<rparr>"

definition ex_decorator :: "Cache \<Rightarrow> CachedTranslationService" where
  "ex_decorator ca =
     NewCachedTranslationService (GoogleService ex_google ex_world_500) (Some ca)
       \<lparr>TTL = 3600 * Second, Enabled = True, ShareAcrossServices = False, WriteTimeout = 0\<rparr>"

section \<open>Evaluating the string functions\<close>

text \<open>
  The recursive string functions unfold one step at a time, under the condition that
  decides the step; with the definitions of the helpers these equations evaluate them on
  a given string.
\<close>

lemma runes_Nil: "runes [] = []"
  by (simp add: runes.simps)

lemma runes_Cons:
  "runes (c # cs) = fst (DecodeRune (c # cs)) # runes (drop (snd (DecodeRune (c # cs))) (c # cs))"
  by (subst runes.simps) simp

lemma strip_spaces_stop: "space_width encs s = 0 \<Longrightarrow> strip_spaces encs s = s"
  by (simp add: strip_spaces.simps)

lemma strip_spaces_step:
  "space_width encs s \<noteq> 0 \<Longrightarrow>
   strip_spaces encs s = strip_spaces encs (drop (space_width encs s) s)"
  by (subst strip_spaces.simps) simp

lemmas str_eval = runes_Nil runes_Cons strip_spaces_stop strip_spaces_step space_width_def
  space_encodings_def TrimLeft_def TrimRight_def TrimSpace_def byte_def cont_def accept_lo_def
  accept_hi_def RuneError_def lower_byte_def upper_byte_def ToLower_def ToUpper_def EqualFold_def
  HasPrefix_def Let_def char_of_def bit_0

section \<open>Facts about the example inputs\<close>

text \<open>What the examples are, read off their definitions.\<close>

lemma ex_decorator_fields:
  "service (ex_decorator ca) = GoogleService ex_google ex_world_500"
  "enabled (ex_decorator ca)" "cache (ex_decorator ca) = Some ca"
  "keyGenerator (ex_decorator ca) = NewKeyGenerator False"
  by (simp_all add: ex_decorator_def NewCachedTranslationService_def)

lemma ex_world_500_facts:
  "\<forall>n url j. upstream ex_world_500 n url j = Responds 500 ''Internal Server Error''"
  "\<forall>req. \<exists>j. jsonMarshalRequest ex_world_500 req = Inr j"
  by (simp_all add: ex_world_500_def)


lemma ex_stale_read:
  "Get ex_cache_stale ctx key = (Some ''v0'', None)"
  "jsonUnmarshalCached ex_world_500 ''v0'' = Inr ex_stale"
  "Version ex_stale = 0"
  by (simp_all add: ex_cache_stale_def ex_world_500_def ex_stale_def ex_entry_def)

lemma ex_hit_read:
  "getFromCache (ex_decorator ex_cache_hit) ex_world_500 ctx key = Returns (Some ex_entry, None)"
  by (simp add: getFromCache_def ex_decorator_fields ex_cache_hit_def ex_world_500_def
        ex_entry_def CacheFormatVersion_def)

lemma ex_hit_response:
  "buildResponseFromCache c ex_entry
   = Response0\<lparr>Src := ''en'', Sentences := [Sentence0\<lparr>Orig := ''Hello'', Trans := ''ni hao''\<rparr>]\<rparr>"
  by (simp add: buildResponseFromCache_def ex_entry_def Let_def)

lemma ex_error_response:
  "buildErrorResponse ex_google ''Hello'' ''en'' ''zh''
   = Response0\<lparr>Src := ''en'', Sentences := [Sentence0\<lparr>Orig := ''Hello'', Trans := ''Hello''\<rparr>],
        LDResult := Some \<lparr>Srclangs = [''en''], SrclangsConfidences = [0.5]\<rparr>\<rparr>"
  by (simp add: buildErrorResponse_def str_eval)

section \<open>Properties of the language heuristic\<close>

lemma detect_scan_first_script: "detect_scan rs = first_script rs"
  by (induction rs) (auto simp: first_script_def recognized_def script_code_def)

lemma script_families:
  "IsCJK r \<Longrightarrow> script_code r = ''zh-CN''"
  "IsCyrillic r \<Longrightarrow> script_code r = ''ru''"
  "IsJapanese r \<Longrightarrow> script_code r = ''ja''"
  "IsKorean r \<Longrightarrow> script_code r = ''ko''"
  by (auto simp: script_code_def IsCJK_def IsCyrillic_def IsJapanese_def IsKorean_def)

lemmas lang_eval = str_eval DetectLanguage_def NormalizeLanguageCode_def IsCJK_def IsCyrillic_def
  IsJapanese_def IsKorean_def recognized_def script_code_def


text \<open>
  Claim C9, as the code has it. \<open>DetectLanguage\<close> is a total function. When the requested
  language is not blank (not empty after trimming white space) and is not \<open>auto\<close> in any
  letter case, the result is its normalized form. Otherwise the result is decided by the
  first rune of the text that lies in a recognized range: \<open>zh-CN\<close> for a CJK ideograph,
  \<open>ru\<close> for Cyrillic, \<open>ja\<close> for Hiragana or Katakana, \<open>ko\<close> for Hangul; and it is \<open>en\<close>
  when no rune lies in any range.
\<close>

theorem C9_DetectLanguage:
  "DetectLanguage text requested =
     (if TrimSpace requested \<noteq> [] \<and> \<not> EqualFold requested ''auto''
      then NormalizeLanguageCode requested
      else case find recognized (runes text) of None \<Rightarrow> ''en'' | Some r \<Rightarrow> script_code r)
   \<and> (IsCJK r \<longrightarrow> script_code r = ''zh-CN'')
   \<and> (IsCyrillic r \<longrightarrow> script_code r = ''ru'')
   \<and> (IsJapanese r \<longrightarrow> script_code r = ''ja'')
   \<and> (IsKorean r \<longrightarrow> script_code r = ''ko'')"
  by (simp add: DetectLanguage_def detect_scan_first_script first_script_def script_families)

theorem C9_DetectLanguage_witness:
  "DetectLanguage [CHR 0xE4, CHR 0xBD, CHR 0xA0, CHR 0xE5, CHR 0xA5, CHR 0xBD] ''auto'' = ''zh-CN''
   \<and> runes [CHR 0xE4, CHR 0xBD, CHR 0xA0, CHR 0xE5, CHR 0xA5, CHR 0xBD] = [0x4F60, 0x597D]
   \<and> IsCJK 0x4F60 \<and> script_code 0x4F60 = ''zh-CN''
   \<and> DetectLanguage ''Hello'' ''FR'' = ''fr''
   \<and> DetectLanguage ''Hello'' [] = ''en''"
  using C9_DetectLanguage [of "[CHR 0xE4, CHR 0xBD, CHR 0xA0, CHR 0xE5, CHR 0xA5, CHR 0xBD]"
          "''auto''" "0x4F60"]
        C9_DetectLanguage [of "''Hello''" "''FR''" 0]
        C9_DetectLanguage [of "''Hello''" "[]" 0]
  by (simp add: lang_eval)


text \<open>
  The claim as stated fails for a requested language that is not empty but blank: one
  space is not the \<open>auto\<close> sentinel and its normalized form is itself, yet the text is
  scanned.
\<close>

theorem C9_counterexample:
  "'' '' \<noteq> [] \<and> \<not> EqualFold '' '' ''auto''
   \<and> NormalizeLanguageCode '' '' = '' '' \<and> DetectLanguage ''Hello'' '' '' = ''en''"
  by (simp add: lang_eval)

section \<open>Properties of the key derivation\<close>


































section \<open>Properties of the retry loop\<close>

lemma fst_after: "fst (after evs p) = fst p"
  by (simp add: after_def)

lemma snd_after: "snd (after evs p) = evs @ snd p"
  by (simp add: after_def)

lemma loop_unfold:
  "doRequest_loop t w ctx url j a e =
     (case iteration t w ctx url j a e of
        Stop r evs \<Rightarrow> (r, evs)
      | Retry e' \<Rightarrow> after [HttpCall (nat a), Sleep (backoff a)]
                      (doRequest_loop t w ctx url j (a + 1) e'))"
  by (subst doRequest_loop.simps)
     (simp add: iteration_def split: option.splits attempt_outcome.splits sum.splits)

lemma iteration_Retry:
  "iteration t w ctx url j a e = Retry e' \<Longrightarrow> a < maxRetryAttempt t \<and> ctx (nat a) = None"
  by (simp add: iteration_def split: if_splits option.splits attempt_outcome.splits sum.splits)

lemma iteration_Stop:
  "iteration t w ctx url j a e = Stop r evs \<Longrightarrow>
     r \<noteq> None \<and> (evs = [] \<or> evs = [HttpCall (nat a)])"
  by (auto simp: iteration_def failure_def
           split: if_splits option.splits attempt_outcome.splits sum.splits)

lemma loop_induct:
  assumes "\<And>a e. (\<And>e'. iteration t w ctx url j a e = Retry e' \<Longrightarrow> P (a + 1) e') \<Longrightarrow> P a e"
  shows "P a e"
proof (induction "nat (maxRetryAttempt t + 1 - a)" arbitrary: a e rule: less_induct)
  case (less a e)
  have "P (a + 1) e'" if "iteration t w ctx url j a e = Retry e'" for e'
  proof -
    from that have "a < maxRetryAttempt t" by (simp add: iteration_Retry)
    then have "nat (maxRetryAttempt t + 1 - (a + 1)) < nat (maxRetryAttempt t + 1 - a)" by simp
    then show ?thesis by (rule less)
  qed
  then show ?case by (rule assms)
qed

lemma loop_result: "fst (doRequest_loop t w ctx url j a e) \<noteq> None"
proof (induction a e rule: loop_induct [where t = t and w = w and ctx = ctx and url = url and j = j])
  case (1 a e)
  show ?case
  proof (cases "iteration t w ctx url j a e")
    case (Stop r evs)
    then show ?thesis using iteration_Stop [OF Stop] by (simp add: loop_unfold [of t w ctx url j a])
  next
    case (Retry e')
    then show ?thesis using 1 [OF Retry] by (simp add: loop_unfold [of t w ctx url j a] fst_after)
  qed
qed

lemma loop_attempts:
  "attempts (snd (doRequest_loop t w ctx url j a e)) \<le> nat (maxRetryAttempt t + 1 - a)"
proof (induction a e rule: loop_induct [where t = t and w = w and ctx = ctx and url = url and j = j])
  case (1 a e)
  show ?case
  proof (cases "iteration t w ctx url j a e")
    case (Stop r evs)
    then have "a \<le> maxRetryAttempt t \<or> evs = []"
      by (auto simp: iteration_def split: if_splits)
    then show ?thesis using iteration_Stop [OF Stop] Stop
      by (auto simp: loop_unfold [of t w ctx url j a] attempts_def)
  next
    case (Retry e')
    then show ?thesis using 1 [OF Retry] iteration_Retry [OF Retry]
      by (auto simp: loop_unfold [of t w ctx url j a] snd_after attempts_def)
  qed
qed

lemma backoff_linear:
  "0 \<le> a \<Longrightarrow> a < 46116860184 \<Longrightarrow> backoff a = (a + 1) * (200 * Millisecond)"
  by (simp add: backoff_def int64_def Millisecond_def)

lemma retry_trace_0: "retry_trace k 0 = []"
  by (simp add: retry_trace_def)

lemma retry_trace_Suc:
  "retry_trace k (Suc n)
   = [HttpCall k, Sleep ((int k + 1) * (200 * Millisecond))] @ retry_trace (Suc k) n"
  by (simp add: retry_trace_def upt_conv_Cons)

lemma loop_trace:
  assumes "maxRetryAttempt t \<le> 46116860184"
  shows "0 \<le> a \<longrightarrow>
         (\<exists>n. snd (doRequest_loop t w ctx url j a e) = retry_trace (nat a) n
            \<or> snd (doRequest_loop t w ctx url j a e)
                = retry_trace (nat a) n @ [HttpCall (nat a + n)])"
proof (induction a e rule: loop_induct [where t = t and w = w and ctx = ctx and url = url and j = j])
  case (1 a e)
  show ?case
  proof (cases "iteration t w ctx url j a e")
    case (Stop r evs)
    then have "snd (doRequest_loop t w ctx url j a e) = retry_trace (nat a) 0
      \<or> snd (doRequest_loop t w ctx url j a e) = retry_trace (nat a) 0 @ [HttpCall (nat a + 0)]"
      using iteration_Stop [OF Stop] by (auto simp: loop_unfold [of t w ctx url j a] retry_trace_0)
    then show ?thesis by blast
  next
    case (Retry e')
    show ?thesis
    proof
      assume a0: "0 \<le> a"
      from iteration_Retry [OF Retry] assms have "a < 46116860184" by simp
      with a0 have b: "backoff a = (int (nat a) + 1) * (200 * Millisecond)"
        by (simp add: backoff_linear)
      from 1 [OF Retry] a0 obtain n where
        n: "snd (doRequest_loop t w ctx url j (a + 1) e') = retry_trace (nat (a + 1)) n
          \<or> snd (doRequest_loop t w ctx url j (a + 1) e')
              = retry_trace (nat (a + 1)) n @ [HttpCall (nat (a + 1) + n)]"
        by auto
      have s: "nat (a + 1) = Suc (nat a)" using a0 by simp
      have "snd (doRequest_loop t w ctx url j a e) = retry_trace (nat a) (Suc n)
        \<or> snd (doRequest_loop t w ctx url j a e)
            = retry_trace (nat a) (Suc n) @ [HttpCall (nat a + Suc n)]"
        using n Retry by (auto simp: loop_unfold [of t w ctx url j a] snd_after b s retry_trace_Suc)
      then show "\<exists>n. snd (doRequest_loop t w ctx url j a e) = retry_trace (nat a) n
            \<or> snd (doRequest_loop t w ctx url j a e)
                = retry_trace (nat a) n @ [HttpCall (nat a + n)]" by blast
    qed
  qed
qed

lemma doRequest_result: "fst (doRequest t w ctx req model) \<noteq> None"
  by (cases "jsonMarshalRequest w req") (simp_all add: doRequest_def Let_def failure_def loop_result)

lemma doRequest_attempts:
  "attempts (snd (doRequest t w ctx req model)) \<le> nat (maxRetryAttempt t + 1)"
  using loop_attempts [of t w _ _ _ 0]
  by (cases "jsonMarshalRequest w req") (simp_all add: doRequest_def Let_def attempts_def)

lemmas loop_eval = loop_unfold iteration_def failure_def after_def shouldRetryStatus_def
  TranslationResult0_def

lemma ex_world_500_run: "doRequest ex_translator ex_world_500 None ex_request [] =
   (failure (''HTTP 500: Internal Server Error''),
    [HttpCall 0, Sleep 200000000, HttpCall 1, Sleep 400000000, HttpCall 2])"
  by (simp add: doRequest_def Let_def ex_world_500_def ex_translator_def Background_def loop_eval
      backoff_def int64_def Millisecond_def Itoa_def digits.simps char_of_def bit_0)


text \<open>
  Claim C4. For a translator whose retry count \<open>N\<close> is non-negative (and below
  \<open>2^63 - 1\<close>, so that the loop counter does not overflow), \<open>doRequest\<close> returns, on every
  input, a result that is not \<open>nil\<close>, after at most \<open>N + 1\<close> upstream attempts. The
  constructor sets \<open>N\<close> to 2.
\<close>

theorem C4_doRequest_bounded:
  assumes "0 \<le> maxRetryAttempt t" and "maxRetryAttempt t < 2 ^ 63 - 1"
  shows "(\<exists>r. fst (doRequest t w ctx req model) = Some r)
     \<and> int (attempts (snd (doRequest t w ctx req model))) \<le> maxRetryAttempt t + 1
     \<and> (\<forall>t'. NewTranslator key = Inr t' \<longrightarrow> maxRetryAttempt t' = 2)"
proof (intro conjI)
  show "\<exists>r. fst (doRequest t w ctx req model) = Some r"
    using doRequest_result [of t w ctx req model] by auto
  show "int (attempts (snd (doRequest t w ctx req model))) \<le> maxRetryAttempt t + 1"
    using doRequest_attempts [of t w ctx req model] assms(1) by linarith
  show "\<forall>t'. NewTranslator key = Inr t' \<longrightarrow> maxRetryAttempt t' = 2"
    by (auto simp: NewTranslator_def split: if_splits)
qed


theorem C4_doRequest_bounded_witness:
  "(\<exists>r. fst (doRequest ex_translator ex_world_500 None ex_request []) = Some r)
   \<and> int (attempts (snd (doRequest ex_translator ex_world_500 None ex_request []))) \<le> 3
   \<and> NewTranslator ''sk-test'' = Inr ex_translator
   \<and> maxRetryAttempt ex_translator = 2"
proof -
  have "0 \<le> maxRetryAttempt ex_translator" and "maxRetryAttempt ex_translator < 2 ^ 63 - 1"
    by (simp_all add: ex_translator_def)
  from C4_doRequest_bounded [OF this, of ex_world_500 None ex_request "[]" "''sk-test''"]
  show ?thesis by (simp add: ex_translator_def NewTranslator_def HasPrefix_def)
qed

text \<open>
  Claim C5. The delay computed after attempt number \<open>a\<close> (counted from 0) has failed is
  \<open>(a + 1) * 200ms\<close>, the number of attempts made so far times the fixed step; and the
  trace of every run of \<open>doRequest\<close> is a sequence of failed attempts \<open>0, 1, ...\<close>, each
  followed by exactly that sleep, ended by nothing or by one last attempt. (The bound
  keeps the product inside \<open>int64\<close>.)
\<close>

theorem C5_backoff_linear:
  assumes "maxRetryAttempt t \<le> 46116860184"
  shows "(\<forall>a. 0 \<le> a \<and> a < 46116860184 \<longrightarrow> backoff a = (a + 1) * (200 * Millisecond))
     \<and> (\<exists>n. snd (doRequest t w ctx req model) = retry_trace 0 n
           \<or> snd (doRequest t w ctx req model) = retry_trace 0 n @ [HttpCall n])"
proof
  show "\<forall>a. 0 \<le> a \<and> a < 46116860184 \<longrightarrow> backoff a = (a + 1) * (200 * Millisecond)"
    by (simp add: backoff_linear)
next
  show "\<exists>n. snd (doRequest t w ctx req model) = retry_trace 0 n
           \<or> snd (doRequest t w ctx req model) = retry_trace 0 n @ [HttpCall n]"
  proof (cases "jsonMarshalRequest w req")
    case (Inl err)
    then have "snd (doRequest t w ctx req model) = retry_trace 0 0"
      by (simp add: doRequest_def Let_def retry_trace_0)
    then show ?thesis by blast
  next
    case (Inr j)
    then show ?thesis
      using loop_trace [OF assms, of 0 w "case ctx of None \<Rightarrow> Background | Some c \<Rightarrow> c"
                          "buildURL t model" j "[]"]
      by (simp add: doRequest_def Let_def)
  qed
qed


theorem C5_backoff_linear_witness:
  "backoff 0 = 200 * Millisecond \<and> backoff 1 = 2 * (200 * Millisecond)
   \<and> snd (doRequest ex_translator ex_world_500 None ex_request [])
       = [HttpCall 0, Sleep 200000000, HttpCall 1, Sleep 400000000, HttpCall 2]
   \<and> (\<exists>n. snd (doRequest ex_translator ex_world_500 None ex_request []) = retry_trace 0 n
         \<or> snd (doRequest ex_translator ex_world_500 None ex_request [])
             = retry_trace 0 n @ [HttpCall n])"
proof -
  have "maxRetryAttempt ex_translator \<le> 46116860184"
    by (simp add: ex_translator_def)
  from C5_backoff_linear [OF this, of ex_world_500 None ex_request "[]"]
  show ?thesis by (simp add: ex_world_500_run)
qed

section \<open>An upstream that always answers HTTP 500\<close>

lemma Itoa_500: "Itoa 500 = ''500''"
  by (simp add: Itoa_def digits.simps char_of_def bit_0)

lemma iteration_500:
  assumes "upstream w (nat a) url j = Responds 500 body" and "ctx (nat a) = None"
    and "a \<le> maxRetryAttempt t"
  shows "iteration t w ctx url j a e =
     (if a < maxRetryAttempt t then Retry (''HTTP 500: '' @ body)
      else Stop (failure (''HTTP 500: '' @ body)) [HttpCall (nat a)])"
  using assms by (simp add: iteration_def shouldRetryStatus_def Itoa_500)

lemma loop_500:
  assumes up: "\<forall>n. upstream w n url j = Responds 500 body" and ctx: "\<forall>n. ctx n = None"
  shows "0 \<le> a \<and> a \<le> maxRetryAttempt t \<longrightarrow>
     fst (doRequest_loop t w ctx url j a e) = failure (''HTTP 500: '' @ body)
     \<and> attempts (snd (doRequest_loop t w ctx url j a e)) = nat (maxRetryAttempt t + 1 - a)"
proof (induction a e rule: loop_induct [where t = t and w = w and ctx = ctx and url = url and j = j])
  case (1 a e)
  show ?case
  proof
    assume a: "0 \<le> a \<and> a \<le> maxRetryAttempt t"
    have it: "iteration t w ctx url j a e =
       (if a < maxRetryAttempt t then Retry (''HTTP 500: '' @ body)
        else Stop (failure (''HTTP 500: '' @ body)) [HttpCall (nat a)])"
      using up ctx a by (simp add: iteration_500)
    show "fst (doRequest_loop t w ctx url j a e) = failure (''HTTP 500: '' @ body)
      \<and> attempts (snd (doRequest_loop t w ctx url j a e)) = nat (maxRetryAttempt t + 1 - a)"
    proof (cases "a < maxRetryAttempt t")
      case True
      with it have r: "iteration t w ctx url j a e = Retry (''HTTP 500: '' @ body)" by simp
      have l: "doRequest_loop t w ctx url j a e =
          after [HttpCall (nat a), Sleep (backoff a)]
            (doRequest_loop t w ctx url j (a + 1) (''HTTP 500: '' @ body))"
        by (subst loop_unfold) (simp add: r)
      from 1 [OF r] a True
      have "fst (doRequest_loop t w ctx url j (a + 1) (''HTTP 500: '' @ body))
              = failure (''HTTP 500: '' @ body)"
        and "attempts (snd (doRequest_loop t w ctx url j (a + 1) (''HTTP 500: '' @ body)))
              = nat (maxRetryAttempt t + 1 - (a + 1))"
        by simp_all
      then show ?thesis using a True
        by (simp add: l fst_after snd_after attempts_def nat_diff_distrib)
    next
      case False
      with it have s: "iteration t w ctx url j a e =
          Stop (failure (''HTTP 500: '' @ body)) [HttpCall (nat a)]" by simp
      have l: "doRequest_loop t w ctx url j a e =
          (failure (''HTTP 500: '' @ body), [HttpCall (nat a)])"
        by (subst loop_unfold) (simp add: s)
      from False a have "maxRetryAttempt t + 1 - a = 1" by simp
      then show ?thesis by (simp add: l attempts_def)
    qed
  qed
qed

lemma doRequest_500:
  assumes up: "\<forall>n url j. upstream w n url j = Responds 500 body"
    and ctx: "\<forall>c n. ctx = Some c \<longrightarrow> c n = None"
    and m: "jsonMarshalRequest w req = Inr j"
    and N: "0 \<le> maxRetryAttempt t"
  shows "fst (doRequest t w ctx req model) = failure (''HTTP 500: '' @ body)"
    and "attempts (snd (doRequest t w ctx req model)) = nat (maxRetryAttempt t + 1)"
proof -
  let ?c = "case ctx of None \<Rightarrow> Background | Some c \<Rightarrow> c"
  have c: "\<forall>n. ?c n = None" using ctx by (cases ctx) (simp_all add: Background_def)
  have u: "\<forall>n. upstream w n (buildURL t model) j = Responds 500 body" using up by simp
  from loop_500 [OF u c, of 0 t "[]"] N m
  show "fst (doRequest t w ctx req model) = failure (''HTTP 500: '' @ body)"
    and "attempts (snd (doRequest t w ctx req model)) = nat (maxRetryAttempt t + 1)"
    by (simp_all add: doRequest_def Let_def)
qed

lemma doTranslate_failure:
  assumes "fst (fn ctx q tl' [sl]) = failure msg" and "fst (fn ctx q tl' []) = failure msg"
  shows "fst (doTranslate g ctx q sl tl' dt fn) = Returns (Some (buildErrorResponse g q sl tl'), None)"
  using assms by (auto simp: doTranslate_def failure_def TranslationResult0_def split: prod.splits)

lemma snd_doTranslate:
  "snd (doTranslate g ctx q sl tl' dt fn) =
     (if sl \<noteq> [] \<and> \<not> EqualFold sl ''auto'' then snd (fn ctx q tl' [sl]) else snd (fn ctx q tl' []))"
  by (auto simp: doTranslate_def split: prod.splits option.splits)



lemma adapter_500:
  assumes up: "\<forall>n url j. upstream w n url j = Responds 500 body"
    and ctx: "\<forall>c n. ctx = Some c \<longrightarrow> c n = None"
    and m: "\<forall>req. \<exists>j. jsonMarshalRequest w req = Inr j"
    and N: "0 \<le> maxRetryAttempt (translator g)"
  shows "fst (GoogleTranslator_TranslateWithModel g w ctx q sl tl' dt model)
           = Returns (Some (buildErrorResponse g q sl tl'), None)"
    and "attempts (snd (GoogleTranslator_TranslateWithModel g w ctx q sl tl' dt model))
           = nat (maxRetryAttempt (translator g) + 1)"
proof -
  have r: "fst (doRequest (translator g) w ctx req model) = failure (''HTTP 500: '' @ body)"
    and a: "attempts (snd (doRequest (translator g) w ctx req model))
              = nat (maxRetryAttempt (translator g) + 1)" for req
  proof -
    from m obtain j where "jsonMarshalRequest w req = Inr j" by blast
    from doRequest_500 [OF up ctx this N]
    show "fst (doRequest (translator g) w ctx req model) = failure (''HTTP 500: '' @ body)"
      and "attempts (snd (doRequest (translator g) w ctx req model))
              = nat (maxRetryAttempt (translator g) + 1)"
      by simp_all
  qed
  show "fst (GoogleTranslator_TranslateWithModel g w ctx q sl tl' dt model)
           = Returns (Some (buildErrorResponse g q sl tl'), None)"
    unfolding GoogleTranslator_TranslateWithModel_def
    by (rule doTranslate_failure) (simp_all add: TranslateWithModelContext_def r)
  show "attempts (snd (GoogleTranslator_TranslateWithModel g w ctx q sl tl' dt model))
           = nat (maxRetryAttempt (translator g) + 1)"
    by (simp add: GoogleTranslator_TranslateWithModel_def snd_doTranslate
          TranslateWithModelContext_def a)
qed






section \<open>A response body that does not decode\<close>

lemma ex_world_retry_run:
  "doRequest ex_translator ex_world_retry None ex_request [] =
     (Some \<lparr>Success = True, TranslatedText_res = ''ni hao'', SourceLang_res = ''EN'',
            TargetLang_res = ''ZH'', ErrorMessage = [], RawResponse = Some ex_payload\<rparr>,
      [HttpCall 0, Sleep 200000000, HttpCall 1])"
  by (simp add: doRequest_def Let_def ex_world_retry_def ex_world_500_def ex_translator_def
        ex_request_def ex_payload_def Background_def loop_eval backoff_def int64_def Millisecond_def)


text \<open>
  Claim C3, as the code has it. When an attempt gets status 200 and a body that
  \<open>json.Unmarshal\<close> rejects, the client retries like for a transient failure: while the
  attempt is not the last one (\<open>attempt < N\<close>) it sleeps the backoff delay and goes on to the
  next attempt, and its result is the result of the remaining attempts; on the last attempt
  (\<open>attempt = N\<close>) it returns an unsuccessful result with the parse error and makes no
  further attempt.
\<close>

theorem C3_parse_failure_retried:
  assumes "a \<le> maxRetryAttempt t" and "ctx (nat a) = None"
    and "upstream w (nat a) url j = Responds 200 body"
    and "jsonUnmarshalResponse w body = Inl err"
  shows "doRequest_loop t w ctx url j a e =
     (if a < maxRetryAttempt t
      then after [HttpCall (nat a), Sleep (backoff a)]
             (doRequest_loop t w ctx url j (a + 1) (msg_parse @ error_text err))
      else (failure (msg_parse @ error_text err), [HttpCall (nat a)]))"
  using assms by (subst loop_unfold) (simp add: iteration_def)

theorem C3_parse_failure_retried_witness:
  "doRequest_loop ex_translator ex_world_retry Background (buildURL ex_translator []) ''Hello'' 0 []
   = after [HttpCall 0, Sleep (backoff 0)]
       (doRequest_loop ex_translator ex_world_retry Background (buildURL ex_translator [])
          ''Hello'' 1 (msg_parse @ ''invalid character''))"
proof -
  have "0 \<le> maxRetryAttempt ex_translator" by (simp add: ex_translator_def)
  moreover have "Background (nat 0) = None" by (simp add: Background_def)
  moreover have "upstream ex_world_retry (nat 0) (buildURL ex_translator []) ''Hello''
                   = Responds 200 ''<html>''"
    by (simp add: ex_world_retry_def)
  moreover have "jsonUnmarshalResponse ex_world_retry ''<html>''
                   = Inl (PlainError ''invalid character'')"
    by (simp add: ex_world_retry_def)
  ultimately show ?thesis
    using C3_parse_failure_retried [of 0 ex_translator Background ex_world_retry
            "buildURL ex_translator []" "''Hello''" "''<html>''"
            "PlainError ''invalid character''" "[]"]
    by (simp add: ex_translator_def)
qed


text \<open>
  The claim as stated fails: the first attempt gets status 200 with a body that does not
  decode, and the client sleeps, makes a second attempt and returns success.
\<close>

theorem C3_counterexample:
  "upstream ex_world_retry 0 (buildURL ex_translator []) ''Hello'' = Responds 200 ''<html>''
   \<and> jsonUnmarshalResponse ex_world_retry ''<html>'' = Inl (PlainError ''invalid character'')
   \<and> doRequest ex_translator ex_world_retry None ex_request [] =
       (Some \<lparr>Success = True, TranslatedText_res = ''ni hao'', SourceLang_res = ''EN'',
              TargetLang_res = ''ZH'', ErrorMessage = [], RawResponse = Some ex_payload\<rparr>,
        [HttpCall 0, Sleep 200000000, HttpCall 1])"
  by (simp add: ex_world_retry_run) (simp add: ex_world_retry_def)

section \<open>Properties of the cache-aside decorator\<close>

lemma getFromCache_mismatch:
  assumes "cache c = Some ca" and "Get ca ctx key = (Some data, None)"
    and "jsonUnmarshalCached w data = Inr cached" and "Version cached \<noteq> CacheFormatVersion"
  shows "getFromCache c w ctx key = Returns (None, None)"
  using assms by (simp add: getFromCache_def)

lemma getFromCache_absent:
  assumes "cache c = Some ca" and "Get ca ctx key = (None, None)"
  shows "getFromCache c w ctx key = Returns (None, None)"
  using assms by (simp add: getFromCache_def)

lemma miss_run:
  assumes "enabled c" and "cache c \<noteq> None"
    and "getFromCache c w ctx (Generate (keyGenerator c) (GetName (service c)) q sl tl' model)
           = Returns (None, x)"
  shows "Cached_TranslateWithModel c w ctx q sl tl' dt model =
     (case TranslateWithModel (service c) ctx q sl tl' dt model of
        Panics \<Rightarrow> (Panics,
          [CacheRead (Generate (keyGenerator c) (GetName (service c)) q sl tl' model),
           InnerCall q sl tl' dt model])
      | Returns (resp, Some err) \<Rightarrow> (Returns (None, Some err),
          [CacheRead (Generate (keyGenerator c) (GetName (service c)) q sl tl' model),
           InnerCall q sl tl' dt model])
      | Returns (resp, None) \<Rightarrow> (Returns (resp, None),
          [CacheRead (Generate (keyGenerator c) (GetName (service c)) q sl tl' model),
           InnerCall q sl tl' dt model,
           GoSave (Generate (keyGenerator c) (GetName (service c)) q sl tl' model)
             q sl tl' model resp]))"
  using assms by (cases "cache c") (simp_all add: Cached_TranslateWithModel_def Let_def)


text \<open>
  Claim C7. When the cache holds, under the key of the request, bytes that decode to an
  entry whose version is not \<open>CacheFormatVersion\<close>, the lookup answers like an absence
  (\<open>nil, nil\<close>); the whole call behaves exactly as with a cache that holds nothing; the
  wrapped service is called; and the reply is the one built from the wrapped service's
  answer, never from the entry.
\<close>

theorem C7_version_mismatch_is_miss:
  assumes "enabled c" and "cache c = Some ca"
    and "Get ca ctx (Generate (keyGenerator c) (GetName (service c)) q sl tl' model)
           = (Some data, None)"
    and "jsonUnmarshalCached w data = Inr cached"
    and "Version cached \<noteq> CacheFormatVersion"
  shows "getFromCache c w ctx (Generate (keyGenerator c) (GetName (service c)) q sl tl' model)
           = Returns (None, None)
     \<and> Cached_TranslateWithModel c w ctx q sl tl' dt model
           = Cached_TranslateWithModel (c\<lparr>cache := Some (emptied ca)\<rparr>) w ctx q sl tl' dt model
     \<and> InnerCall q sl tl' dt model \<in> set (snd (Cached_TranslateWithModel c w ctx q sl tl' dt model))
     \<and> fst (Cached_TranslateWithModel c w ctx q sl tl' dt model)
           = (case TranslateWithModel (service c) ctx q sl tl' dt model of
                Panics \<Rightarrow> Panics
              | Returns (resp, Some err) \<Rightarrow> Returns (None, Some err)
              | Returns (resp, None) \<Rightarrow> Returns (resp, None))"
proof -
  let ?key = "Generate (keyGenerator c) (GetName (service c)) q sl tl' model"
  let ?c' = "c\<lparr>cache := Some (emptied ca)\<rparr>"
  have g: "getFromCache c w ctx ?key = Returns (None, None)"
    using assms(2-5) by (rule getFromCache_mismatch)
  have g': "getFromCache ?c' w ctx
              (Generate (keyGenerator ?c') (GetName (service ?c')) q sl tl' model)
            = Returns (None, None)"
    by (rule getFromCache_absent [where ca = "emptied ca"]) (simp_all add: emptied_def)
  have ne: "cache c \<noteq> None" using assms(2) by simp
  note r = miss_run [OF assms(1) ne g, of dt]
  have "enabled ?c'" and "cache ?c' \<noteq> None" by (simp_all add: assms(1))
  note r' = miss_run [OF this g', of dt]
  have e: "Cached_TranslateWithModel c w ctx q sl tl' dt model
           = Cached_TranslateWithModel ?c' w ctx q sl tl' dt model"
    by (simp add: r r' split: exec.splits prod.splits option.splits)
  have i: "InnerCall q sl tl' dt model
             \<in> set (snd (Cached_TranslateWithModel c w ctx q sl tl' dt model))"
    by (simp add: r split: exec.splits prod.splits option.splits)
  have f: "fst (Cached_TranslateWithModel c w ctx q sl tl' dt model)
           = (case TranslateWithModel (service c) ctx q sl tl' dt model of
                Panics \<Rightarrow> Panics
              | Returns (resp, Some err) \<Rightarrow> Returns (None, Some err)
              | Returns (resp, None) \<Rightarrow> Returns (resp, None))"
    by (simp add: r split: exec.splits prod.splits option.splits)
  from g e i f show ?thesis by blast
qed


theorem C7_version_mismatch_is_miss_witness:
  "Version ex_stale = 0 \<and> CacheFormatVersion = 1
   \<and> getFromCache (ex_decorator ex_cache_stale) ex_world_500 None
         (Generate (NewKeyGenerator False) ''DeepLX'' ''Hello'' ''en'' ''zh'' [])
       = Returns (None, None)
   \<and> Cached_TranslateWithModel (ex_decorator ex_cache_stale) ex_world_500 None
         ''Hello'' ''en'' ''zh'' [''t''] []
       = Cached_TranslateWithModel
           ((ex_decorator ex_cache_stale)\<lparr>cache := Some (emptied ex_cache_stale)\<rparr>)
           ex_world_500 None ''Hello'' ''en'' ''zh'' [''t''] []
   \<and> InnerCall ''Hello'' ''en'' ''zh'' [''t''] []
       \<in> set (snd (Cached_TranslateWithModel (ex_decorator ex_cache_stale) ex_world_500 None
                     ''Hello'' ''en'' ''zh'' [''t''] []))"
proof -
  have v: "Version ex_stale \<noteq> CacheFormatVersion"
    by (simp add: ex_stale_read CacheFormatVersion_def)
  note t = C7_version_mismatch_is_miss [OF ex_decorator_fields(2) ex_decorator_fields(3)
         ex_stale_read(1) ex_stale_read(2) v,
         where q = "''Hello''" and sl = "''en''" and tl' = "''zh''" and model = "[]"
           and ctx = None and dt = "[''t'']"]
  from t have g: "getFromCache (ex_decorator ex_cache_stale) ex_world_500 None
         (Generate (NewKeyGenerator False) ''DeepLX'' ''Hello'' ''en'' ''zh'' [])
       = Returns (None, None)"
    by (simp add: ex_decorator_fields GoogleService_def ex_google_def)
  from t have e: "Cached_TranslateWithModel (ex_decorator ex_cache_stale) ex_world_500 None
         ''Hello'' ''en'' ''zh'' [''t''] []
       = Cached_TranslateWithModel
           ((ex_decorator ex_cache_stale)\<lparr>cache := Some (emptied ex_cache_stale)\<rparr>)
           ex_world_500 None ''Hello'' ''en'' ''zh'' [''t''] []"
    by blast
  from t have i: "InnerCall ''Hello'' ''en'' ''zh'' [''t''] []
       \<in> set (snd (Cached_TranslateWithModel (ex_decorator ex_cache_stale) ex_world_500 None
                     ''Hello'' ''en'' ''zh'' [''t''] []))"
    by blast
  have "CacheFormatVersion = 1" by (simp add: CacheFormatVersion_def)
  with ex_stale_read(3) g e i show ?thesis by blast
qed

lemma LDResult_convertToGoogleFormat:
  "LDResult (convertToGoogleFormat g q r dt)
   = Some \<lparr>Srclangs = [Src (convertToGoogleFormat g q r dt)], SrclangsConfidences = [0.99]\<rparr>"
  by (simp add: convertToGoogleFormat_def Let_def Response0_def)

lemma LDResult_buildErrorResponse:
  "LDResult (buildErrorResponse g q sl tl')
   = Some \<lparr>Srclangs = [Src (buildErrorResponse g q sl tl')], SrclangsConfidences = [0.5]\<rparr>"
  by (simp add: buildErrorResponse_def Let_def Response0_def)

lemma LDResult_buildResponseFromCache: "LDResult (buildResponseFromCache c cached) = None"
  by (simp add: buildResponseFromCache_def Let_def Response0_def)

lemma adapter_LDResult:
  "fst (GoogleTranslator_TranslateWithModel g w ctx q sl tl' dt model) = Returns (resp, err)
   \<Longrightarrow> err = None \<and> (\<exists>r. resp = Some r \<and> LDResult r \<noteq> None)"
  by (auto simp: GoogleTranslator_TranslateWithModel_def doTranslate_def
        LDResult_convertToGoogleFormat LDResult_buildErrorResponse
        split: prod.splits option.splits if_splits)


text \<open>
  Claim C1, at the input where the code breaks it. With caching enabled and a cache that
  holds a valid entry for the request, the call returns a response whose \<open>LDResult\<close> is
  \<open>nil\<close> together with a \<open>nil\<close> error: \<open>buildResponseFromCache\<close> does not set the block
  that \<open>convertToGoogleFormat\<close> and \<open>buildErrorResponse\<close> both set.
\<close>

theorem C1_cache_hit_without_LDResult:
  "Cached_TranslateWithModel (ex_decorator ex_cache_hit) ex_world_500 None
       ''Hello'' ''en'' ''zh'' [''t''] []
     = (Returns (Some (Response0\<lparr>Src := ''en'',
                   Sentences := [Sentence0\<lparr>Orig := ''Hello'', Trans := ''ni hao''\<rparr>]\<rparr>), None),
        [CacheRead (Generate (NewKeyGenerator False) ''DeepLX'' ''Hello'' ''en'' ''zh'' [])])
   \<and> LDResult (Response0\<lparr>Src := ''en'',
                   Sentences := [Sentence0\<lparr>Orig := ''Hello'', Trans := ''ni hao''\<rparr>]\<rparr>) = None"
  by (simp add: Cached_TranslateWithModel_def Let_def ex_hit_read ex_hit_response
        ex_decorator_fields GoogleService_def ex_google_def)
     (simp add: Response0_def)


theorem C1_cache_hit_without_LDResult_witness:
  "(case fst (Cached_TranslateWithModel (ex_decorator ex_cache_hit) ex_world_500 None
                ''Hello'' ''en'' ''zh'' [''t''] []) of
      Returns (Some r, None) \<Rightarrow> LDResult r = None \<and> map Trans (Sentences r) = [''ni hao'']
    | Returns other \<Rightarrow> False
    | Panics \<Rightarrow> False)"
  using C1_cache_hit_without_LDResult by (simp add: Response0_def Sentence0_def)

text \<open>
  Claim C10, as the code has it. On the success path of the adapter each block is present
  exactly when its token was requested: the translation sentence with \<open>t\<close>, the
  transliteration sentence with \<open>rm\<close>, the dictionary with \<open>bd\<close>, the spell check with
  \<open>qca\<close>, the examples with \<open>ex\<close>; alternatives are never present. The degraded response
  and the response rebuilt from the cache do not depend on the requested tokens: each
  always carries exactly one sentence pair, no dictionary, no spell check and no
  examples, and the rebuilt response carries alternatives exactly when the entry has some.
\<close>

theorem C10_field_gating:
  "Sentences (convertToGoogleFormat g q r dt)
     = (if Includes dt ''t''
        then [Sentence0\<lparr>Orig := q, Trans := TranslatedText_res r, Backend := 1\<rparr>] else [])
       @ (if Includes dt ''rm''
          then [Sentence0\<lparr>SrcTranslit := q, Translit := ToUpper q\<rparr>] else [])
   \<and> (Dict (convertToGoogleFormat g q r dt) \<noteq> []) = Includes dt ''bd''
   \<and> (Spell (convertToGoogleFormat g q r dt) \<noteq> None) = Includes dt ''qca''
   \<and> (Examples (convertToGoogleFormat g q r dt) \<noteq> None) = Includes dt ''ex''
   \<and> AlternativeTranslations (convertToGoogleFormat g q r dt) = []
   \<and> Sentences (buildErrorResponse g q sl tl') = [Sentence0\<lparr>Orig := q, Trans := q\<rparr>]
   \<and> Dict (buildErrorResponse g q sl tl') = []
   \<and> Spell (buildErrorResponse g q sl tl') = None
   \<and> Examples (buildErrorResponse g q sl tl') = None
   \<and> AlternativeTranslations (buildErrorResponse g q sl tl') = []
   \<and> Sentences (buildResponseFromCache c cached)
       = [Sentence0\<lparr>Orig := OriginalText cached, Trans := TranslatedText cached\<rparr>]
   \<and> Dict (buildResponseFromCache c cached) = []
   \<and> Spell (buildResponseFromCache c cached) = None
   \<and> Examples (buildResponseFromCache c cached) = None
   \<and> (AlternativeTranslations (buildResponseFromCache c cached) \<noteq> [])
       = (Alternatives cached \<noteq> [])"
  by (simp add: convertToGoogleFormat_def buildErrorResponse_def buildResponseFromCache_def
        Let_def Response0_def)

theorem C10_field_gating_witness:
  "Sentences (convertToGoogleFormat ex_google ''Hello'' ex_result [''t'', ''qca''])
     = [Sentence0\<lparr>Orig := ''Hello'', Trans := ''ni hao'', Backend := 1\<rparr>]
   \<and> Dict (convertToGoogleFormat ex_google ''Hello'' ex_result [''t'', ''qca'']) = []
   \<and> Spell (convertToGoogleFormat ex_google ''Hello'' ex_result [''t'', ''qca''])
     \<noteq> None
   \<and> Examples (convertToGoogleFormat ex_google ''Hello'' ex_result [''t'', ''qca'']) = None
   \<and> Sentences (buildErrorResponse ex_google ''Hello'' ''en'' ''zh'')
     = [Sentence0\<lparr>Orig := ''Hello'', Trans := ''Hello''\<rparr>]
   \<and> Sentences (buildResponseFromCache (ex_decorator ex_cache_hit) ex_entry)
     = [Sentence0\<lparr>Orig := ''Hello'', Trans := ''ni hao''\<rparr>]"
  using C10_field_gating [of ex_google "''Hello''" ex_result "[''t'', ''qca'']" "''en''" "''zh''"
          "ex_decorator ex_cache_hit" ex_entry]
  by (simp add: ex_result_def ex_entry_def)

text \<open>
  The claim as stated fails: with only \<open>bd\<close> requested and the upstream at 500, the
  response carries a sentence.
\<close>

theorem C10_counterexample:
  "fst (GoogleTranslator_TranslateWithModel ex_google ex_world_500 None
          ''Hello'' ''en'' ''zh'' [''bd''] [])
     = Returns (Some (Response0\<lparr>Src := ''en'',
                  Sentences := [Sentence0\<lparr>Orig := ''Hello'', Trans := ''Hello''\<rparr>],
                  LDResult := Some \<lparr>Srclangs = [''en''], SrclangsConfidences = [0.5]\<rparr>\<rparr>),
                None)
   \<and> \<not> Includes [''bd''] ''t'' \<and> \<not> Includes [''bd''] ''rm''"
proof -
  have N: "0 \<le> maxRetryAttempt (translator ex_google)"
    by (simp add: ex_google_def ex_translator_def)
  have ctx: "\<forall>c n. (None :: Context option) = Some c \<longrightarrow> c n = None" by simp
  from adapter_500(1) [OF ex_world_500_facts(1) ctx ex_world_500_facts(2) N]
  show ?thesis by (simp add: ex_error_response)
qed

section \<open>Properties of the cache entry\<close>

lemma foldl_append_Trans:
  "foldl (\<lambda>translatedText sentence. translatedText @ Trans sentence) a xs
   = a @ concat (map Trans xs)"
  by (induction xs arbitrary: a) simp_all

lemma TranslatedText_buildCachedTranslation:
  "TranslatedText (buildCachedTranslation c w q sl tl' model resp)
   = concat (map Trans (Sentences resp))"
  by (simp add: buildCachedTranslation_def Let_def foldl_append_Trans)

lemma Sentences_buildResponseFromCache:
  "Sentences (buildResponseFromCache c cached)
   = [Sentence0\<lparr>Orig := OriginalText cached, Trans := TranslatedText cached\<rparr>]"
  by (simp add: buildResponseFromCache_def Let_def Response0_def)

text \<open>
  Claim C8. Building a cache entry from a response and rebuilding a response from that
  entry gives exactly one sentence pair; its translated text is the entry's stored
  translated text, which is the concatenation of the translations of the sentences of the
  original response.
\<close>

theorem C8_roundtrip:
  "map Trans (Sentences (buildResponseFromCache c
       (buildCachedTranslation c w q sl tl' model resp)))
     = [TranslatedText (buildCachedTranslation c w q sl tl' model resp)]
   \<and> TranslatedText (buildCachedTranslation c w q sl tl' model resp)
     = concat (map Trans (Sentences resp))"
  by (simp add: Sentences_buildResponseFromCache TranslatedText_buildCachedTranslation
        Sentence0_def)

theorem C8_roundtrip_witness:
  "map Trans (Sentences (buildResponseFromCache (ex_decorator ex_cache_miss)
       (buildCachedTranslation (ex_decorator ex_cache_miss) ex_world_500
          ''Hello world'' ''en'' ''fr'' [] ex_response)))
     = [''Bonjour monde'']"
  using C8_roundtrip [of "ex_decorator ex_cache_miss" ex_world_500
                         "''Hello world''" "''en''" "''fr''" "[]" ex_response]
  by (simp add: ex_response_def Sentence0_def Response0_def)

end
